theory Spec2Isabelle
  imports Main "HOL-Library.AList"
begin

section \<open>Python values and dictionaries\<close>

text \<open>
  Values that travel through the framework. A Python \<open>str\<close> is represented by the bytes of
  its UTF-8 encoding and \<open>bytes\<close> by its bytes, both as \<open>string\<close>. \<open>VList\<close> is a Python
  list, \<open>VDict\<close> a plain dict with string keys in insertion order.
\<close>

datatype pyval =
    VNone
  | VBool bool
  | VInt int
  | VStr string
  | VBytes string
  | VList "pyval list"
  | VDict "(string \<times> pyval) list"

datatype error =
    TypeError
  | ValueError
  | KeyError
  | IndexError
  | AttributeError
  | NotImplementedError
  | UserError string

text \<open>
  A Python dict is an association list with pairwise distinct keys, in insertion order.
  Storing under a present key keeps the key's position, storing under a new key appends
  the entry: this is \<open>AList.update\<close>.
\<close>

type_synonym ('k, 'v) dict = "('k \<times> 'v) list"

definition dict_update :: "('k, 'v) dict \<Rightarrow> ('k \<times> 'v) list \<Rightarrow> ('k, 'v) dict" where
  \<comment> \<open>\<open>dict.update(items)\<close>, also the dict comprehension when started from \<open>{}\<close>\<close>
  "dict_update d items = foldl (\<lambda>acc (k, v). AList.update k v acc) d items"

definition dict_of_items :: "('k \<times> 'v) list \<Rightarrow> ('k, 'v) dict" where
  "dict_of_items items = dict_update [] items"

section \<open>Library functions the framework calls\<close>

text \<open>
  The functions of the Python standard library that the framework calls are parameters of
  the model. A failure of such a function is a value: \<open>None\<close> or \<open>Inl\<close>.
\<close>

type_synonym cookie_jar = "(string \<times> string) list"

type_synonym matcher = "string \<Rightarrow> (string \<times> pyval) list option"

datatype failure = Failure string string

record stdlib =
  http_phrase :: "int \<Rightarrow> string option"
    \<comment> \<open>\<open>HTTPStatus(status).phrase\<close>; \<open>None\<close> is the \<open>ValueError\<close> of an unknown status\<close>
  json_dumps :: "pyval \<Rightarrow> error + string"
    \<comment> \<open>\<open>json.dumps\<close>\<close>
  json_loads :: "string \<Rightarrow> pyval option"
    \<comment> \<open>\<open>json.loads\<close>; \<open>None\<close> is \<open>JSONDecodeError\<close>\<close>
  utf8_decode :: "string \<Rightarrow> string option"
    \<comment> \<open>\<open>bytes.decode()\<close>; \<open>None\<close> is \<open>UnicodeDecodeError\<close>\<close>
  parse_qs_unquote :: "string \<Rightarrow> (string \<times> string list) list"
    \<comment> \<open>\<open>parse_qs(unquote(s))\<close>: a dict from a name to the list of its values\<close>
  cookie_load :: "cookie_jar \<Rightarrow> string \<Rightarrow> cookie_jar option"
    \<comment> \<open>\<open>SimpleCookie.load\<close>; \<open>None\<close> is \<open>CookieError\<close>\<close>
  cookie_output :: "cookie_jar \<Rightarrow> string list"
    \<comment> \<open>the lines of \<open>SimpleCookie.output()\<close>, each after its \<open>Set-Cookie: \<close> prefix\<close>
  re_compile :: "string \<Rightarrow> failure + matcher"
    \<comment> \<open>\<open>re.compile\<close>; the matcher is the pattern's \<open>fullmatch\<close> followed by \<open>groupdict()\<close>\<close>
  py_str :: "pyval \<Rightarrow> string"
    \<comment> \<open>\<open>str(v)\<close>\<close>
  unicode_lower :: "string \<Rightarrow> string"
    \<comment> \<open>\<open>str.lower()\<close> on a string that has a character outside ASCII\<close>

fun join :: "string \<Rightarrow> string list \<Rightarrow> string" where
  "join sep [] = []"
| "join sep [x] = x"
| "join sep (x # y # ys) = x @ sep @ join sep (y # ys)"

fun contains :: "string \<Rightarrow> string \<Rightarrow> bool" where
  \<comment> \<open>\<open>needle in hay\<close> on strings\<close>
  "contains needle [] = (needle = [])"
| "contains needle (c # cs) = (take (length needle) (c # cs) = needle \<or> contains needle cs)"

text \<open>
  \<open>str.lower()\<close>. On a string of ASCII characters it maps \<open>A\<close> to \<open>Z\<close> to \<open>a\<close> to \<open>z\<close> and
  leaves every other character; on a string with a character outside ASCII (a byte from
  128 on in its UTF-8 encoding) its value is the library's.
\<close>

definition lower_char :: "char \<Rightarrow> char" where
  "lower_char c =
     (let n = (of_char c :: nat) in if 65 \<le> n \<and> n \<le> 90 then char_of (n + 32) else c)"

definition is_ascii :: "string \<Rightarrow> bool" where
  "is_ascii s = list_all (\<lambda>c. (of_char c :: nat) < 128) s"

definition lower :: "stdlib \<Rightarrow> string \<Rightarrow> string" where
  "lower L s = (if is_ascii s then map lower_char s else unicode_lower L s)"

section \<open>MultiDict\<close>

text \<open>
  \<open>class MultiDict(dict)\<close>: the underlying dict maps a key to the list of its values.
\<close>

type_synonym multidict = "(string, pyval list) dict"

text \<open>
  The argument of the constructor: \<open>None\<close>, a plain dict, a list or tuple of pairs, or a
  value of another type. The branch of \<open>__init__\<close> for an argument that is itself a
  MultiDict, which reads it through the overridden \<open>items()\<close>, is outside the model: no
  call modelled here passes one.
\<close>

datatype init_arg =
    ANone
  | ADict "(string \<times> pyval) list"
  | APairs "(string \<times> pyval) list"
  | AOther

definition as_values :: "pyval \<Rightarrow> pyval list" where
  \<comment> \<open>\<open>[v] if not isinstance(v, list) else v[:]\<close>\<close>
  "as_values v = (case v of VList xs \<Rightarrow> xs | _ \<Rightarrow> [v])"

definition raw_setdefault ::
  "stdlib \<Rightarrow> multidict \<Rightarrow> string \<Rightarrow> pyval list \<Rightarrow> multidict \<times> pyval list" where
  \<comment> \<open>\<open>MultiDict._setdefault\<close>: \<open>super().setdefault(key.lower(), list(default))\<close>\<close>
  "raw_setdefault L m key dflt =
     (case map_of m (lower L key) of
        Some vs \<Rightarrow> (m, vs)
      | None \<Rightarrow> (AList.update (lower L key) dflt m, dflt))"

definition add_pair :: "stdlib \<Rightarrow> multidict \<Rightarrow> string \<times> pyval \<Rightarrow> multidict" where
  \<comment> \<open>\<open>self._setdefault(key.lower(), []).append(value)\<close>; the list is the one stored in the dict\<close>
  "add_pair L m kv =
     (case kv of (key, v) \<Rightarrow>
        (case raw_setdefault L m (lower L key) [] of
           (m', vs) \<Rightarrow> AList.update (lower L (lower L key)) (vs @ [v]) m'))"

definition init_from_dict :: "stdlib \<Rightarrow> (string \<times> pyval) list \<Rightarrow> multidict" where
  \<comment> \<open>\<open>{k.lower(): [v] if not isinstance(v, list) else v[:] for k, v in mapping.items()}\<close>\<close>
  "init_from_dict L d = dict_of_items (map (\<lambda>(k, v). (lower L k, as_values v)) d)"

definition init_from_pairs :: "stdlib \<Rightarrow> (string \<times> pyval) list \<Rightarrow> multidict" where
  \<comment> \<open>\<open>for key, value in mapping: self._setdefault(key.lower(), []).append(value)\<close>\<close>
  "init_from_pairs L ps = foldl (add_pair L) [] ps"

definition MultiDict_init :: "stdlib \<Rightarrow> init_arg \<Rightarrow> error + multidict" where
  "MultiDict_init L mapping =
     (case mapping of
        ANone \<Rightarrow> Inr []
      | ADict d \<Rightarrow> Inr (init_from_dict L d)
      | APairs ps \<Rightarrow> Inr (init_from_pairs L ps)
      | AOther \<Rightarrow> Inl TypeError)"


definition setitem :: "stdlib \<Rightarrow> multidict \<Rightarrow> string \<Rightarrow> pyval \<Rightarrow> multidict" where
  \<comment> \<open>\<open>__setitem__\<close>: \<open>super().setdefault(key.lower(), []).append(value)\<close>\<close>
  "setitem L m key v =
     (case map_of m (lower L key) of
        Some vs \<Rightarrow> AList.update (lower L key) (vs @ [v]) m
      | None \<Rightarrow> AList.update (lower L key) ([] @ [v]) (AList.update (lower L key) [] m))"

definition raw_get :: "stdlib \<Rightarrow> multidict \<Rightarrow> string \<Rightarrow> pyval list \<Rightarrow> pyval list" where
  \<comment> \<open>\<open>_get\<close>: \<open>super().get(key.lower(), list(default))\<close>; the default default is \<open>[None]\<close>\<close>
  "raw_get L m key dflt = (case map_of m (lower L key) of Some vs \<Rightarrow> vs | None \<Rightarrow> dflt)"

definition get :: "stdlib \<Rightarrow> multidict \<Rightarrow> string \<Rightarrow> pyval \<Rightarrow> error + pyval" where
  \<comment> \<open>\<open>get\<close>: \<open>super().get(key.lower(), [default])[-1]\<close>\<close>
  "get L m key dflt =
     (let vs = (case map_of m (lower L key) of Some vs \<Rightarrow> vs | None \<Rightarrow> [dflt])
      in if vs = [] then Inl IndexError else Inr (last vs))"

definition raw_pop :: "stdlib \<Rightarrow> multidict \<Rightarrow> string \<Rightarrow> pyval list \<Rightarrow> multidict \<times> pyval list" where
  \<comment> \<open>\<open>_pop\<close>: \<open>super().pop(key.lower(), list(default))\<close>\<close>
  "raw_pop L m key dflt =
     (case map_of m (lower L key) of
        Some vs \<Rightarrow> (AList.delete (lower L key) m, vs)
      | None \<Rightarrow> (m, dflt))"

definition pop :: "stdlib \<Rightarrow> multidict \<Rightarrow> string \<Rightarrow> pyval \<Rightarrow> multidict \<times> pyval" where
  \<comment> \<open>\<open>pop\<close>: with more than one value the last one is removed from the stored list and
      returned; otherwise \<open>super().pop(key.lower(), default)\<close> removes the key and returns
      its list, or returns the default\<close>
  "pop L m key dflt =
     (let vals = (case map_of m (lower L key) of Some vs \<Rightarrow> vs | None \<Rightarrow> [])
      in if length vals > 1
         then (AList.update (lower L key) (butlast vals) m, last vals)
         else (case map_of m (lower L key) of
                 Some vs \<Rightarrow> (AList.delete (lower L key) m, VList vs)
               | None \<Rightarrow> (m, dflt)))"

definition setdefault :: "stdlib \<Rightarrow> multidict \<Rightarrow> string \<Rightarrow> pyval \<Rightarrow> multidict \<times> (error + pyval)" where
  \<comment> \<open>\<open>setdefault\<close>: \<open>super().setdefault(key.lower(), [default])[-1]\<close>\<close>
  "setdefault L m key dflt =
     (case map_of m (lower L key) of
        Some vs \<Rightarrow> (m, if vs = [] then Inl IndexError else Inr (last vs))
      | None \<Rightarrow> (AList.update (lower L key) [dflt] m, Inr (last [dflt])))"

definition raw_items :: "multidict \<Rightarrow> (string \<times> pyval list) list" where
  "raw_items m = m"

definition raw_update :: "multidict \<Rightarrow> (string \<times> pyval list) list \<Rightarrow> multidict" where
  \<comment> \<open>\<open>_update\<close>: \<open>super().update(...)\<close>\<close>
  "raw_update m items = dict_update m items"

definition update :: "stdlib \<Rightarrow> multidict \<Rightarrow> (string \<times> pyval) list \<Rightarrow> multidict" where
  \<comment> \<open>\<open>update\<close>: \<open>new = {}; new.update(source); super().update(MultiDict(new))\<close>. The
      argument is the sequence of entries of the source, a mapping or a sequence of pairs;
      \<open>new\<close> is a plain dict.\<close>
  "update L m src = dict_update m (init_from_dict L (dict_of_items src))"

text \<open>The representation invariant: no key owns an empty list of values.\<close>

definition nonempty_values :: "multidict \<Rightarrow> bool" where
  "nonempty_values m = list_all (\<lambda>kv. snd kv \<noteq> []) m"


section \<open>Response\<close>

record response =
  status :: int
  description :: string
  headers :: multidict
  cookies :: cookie_jar
  body :: string
  dumps :: "pyval \<Rightarrow> error + string"

definition Response_init ::
  "stdlib \<Rightarrow> int \<Rightarrow> init_arg \<Rightarrow> cookie_jar \<Rightarrow> string \<Rightarrow> (pyval \<Rightarrow> error + string)
   \<Rightarrow> error + response" where
  \<comment> \<open>\<open>Response.__init__\<close>; \<open>f"{MediaType.HTML}; charset=utf-8"\<close> is the default
      content type\<close>
  "Response_init L st hs cs bd dmp =
     (case MultiDict_init L hs of
        Inl e \<Rightarrow> Inl e
      | Inr md \<Rightarrow>
          (case setdefault L md ''content-type'' (VStr ''text/html; charset=utf-8'') of
             (md', Inl e) \<Rightarrow> Inl e
           | (md', Inr v) \<Rightarrow>
               Inr \<lparr> status = st,
                     description = (case http_phrase L st of Some p \<Rightarrow> p | None \<Rightarrow> []),
                     headers = md',
                     cookies = cs,
                     body = bd,
                     dumps = dmp \<rparr>))"

definition Response_plain :: "stdlib \<Rightarrow> int \<Rightarrow> string \<Rightarrow> response" where
  \<comment> \<open>\<open>Response(status, body=bd)\<close>: the object that \<open>Response_init\<close> makes without
      headers and cookies and with \<open>dumps = json.dumps\<close>\<close>
  "Response_plain L st bd =
     \<lparr> status = st,
       description = (case http_phrase L st of Some p \<Rightarrow> p | None \<Rightarrow> []),
       headers = [(''content-type'', [VStr ''text/html; charset=utf-8''])],
       cookies = [],
       body = bd,
       dumps = json_dumps L \<rparr>"

definition Response_status :: "stdlib \<Rightarrow> int \<Rightarrow> response" where
  \<comment> \<open>\<open>Response(status)\<close>\<close>
  "Response_status L st = Response_plain L st []"

text \<open>What a handler or a hook returns: a plain value or a \<open>Response\<close> object.\<close>

datatype ret = RVal pyval | RResp response

definition truthy :: "ret \<Rightarrow> bool" where
  \<comment> \<open>Python's truth value; a \<open>Response\<close> defines neither \<open>__bool__\<close> nor \<open>__len__\<close>\<close>
  "truthy r =
     (case r of
        RResp _ \<Rightarrow> True
      | RVal VNone \<Rightarrow> False
      | RVal (VBool b) \<Rightarrow> b
      | RVal (VInt n) \<Rightarrow> n \<noteq> 0
      | RVal (VStr s) \<Rightarrow> s \<noteq> []
      | RVal (VBytes s) \<Rightarrow> s \<noteq> []
      | RVal (VList xs) \<Rightarrow> xs \<noteq> []
      | RVal (VDict d) \<Rightarrow> d \<noteq> [])"

definition from_status :: "stdlib \<Rightarrow> int \<Rightarrow> error + response" where
  \<comment> \<open>\<open>cls(status=any, body=HTTPStatus(any).phrase.encode())\<close>\<close>
  "from_status L n =
     (case http_phrase L n of
        None \<Rightarrow> Inl ValueError
      | Some p \<Rightarrow> Response_init L n ANone [] p (json_dumps L))"

definition from_any :: "stdlib \<Rightarrow> ret \<Rightarrow> error + response" where
  \<comment> \<open>\<open>Response.from_any\<close>; \<open>bool\<close> is a subclass of \<open>int\<close>; \<open>cls().dumps\<close> is the default
      \<open>dumps\<close> of a fresh \<open>Response\<close>\<close>
  "from_any L a =
     (case a of
        RVal (VBool b) \<Rightarrow> from_status L (if b then 1 else 0)
      | RVal (VInt n) \<Rightarrow> from_status L n
      | RVal (VStr s) \<Rightarrow> Response_init L 200 ANone [] s (json_dumps L)
      | RVal (VBytes s) \<Rightarrow> Response_init L 200 ANone [] s (json_dumps L)
      | RVal (VDict d) \<Rightarrow>
          (case dumps (Response_status L 200) (VDict d) of
             Inl e \<Rightarrow> Inl e
           | Inr s \<Rightarrow>
               Response_init L 200 (ADict [(''content-type'', VStr ''application/json'')])
                 [] s (json_dumps L))
      | RResp r \<Rightarrow> Inr r
      | RVal VNone \<Rightarrow> Response_init L 204 ANone [] [] (json_dumps L)
      | RVal (VList xs) \<Rightarrow> Inl TypeError)"

section \<open>Request\<close>

text \<open>The fields \<open>method\<close>, \<open>headers\<close>, \<open>cookies\<close> and \<open>body\<close> carry the prefix \<open>req_\<close>.\<close>

record request =
  req_method :: string
  path :: string
  ip :: string
  params :: "(string \<times> pyval) list"
  args :: multidict
  req_headers :: multidict
  req_cookies :: cookie_jar
  req_body :: string
  json :: pyval
  form :: multidict
  state :: "(string \<times> pyval) list"

definition Request_init ::
  "stdlib \<Rightarrow> string \<Rightarrow> string \<Rightarrow> string \<Rightarrow> (string \<times> pyval) list option \<Rightarrow> init_arg \<Rightarrow> init_arg
   \<Rightarrow> cookie_jar \<Rightarrow> string \<Rightarrow> pyval \<Rightarrow> init_arg \<Rightarrow> (string \<times> pyval) list option
   \<Rightarrow> error + request" where
  "Request_init L m p i ps ar hs cs bd js fm st =
     (case MultiDict_init L ar of Inl e \<Rightarrow> Inl e | Inr ar' \<Rightarrow>
      case MultiDict_init L hs of Inl e \<Rightarrow> Inl e | Inr hs' \<Rightarrow>
      case MultiDict_init L fm of Inl e \<Rightarrow> Inl e | Inr fm' \<Rightarrow>
        Inr \<lparr> req_method = m, path = p, ip = i,
              params = (case ps of None \<Rightarrow> [] | Some x \<Rightarrow> x),
              args = ar', req_headers = hs', req_cookies = cs, req_body = bd,
              json = js, form = fm',
              state = (case st of None \<Rightarrow> [] | Some x \<Rightarrow> x) \<rparr>)"

section \<open>Application\<close>

text \<open>
  A handler, a hook or a lifespan function is a Python callable. It may change the objects
  it is given, so it returns them together with its outcome: the value it returns, a
  \<open>Response\<close> it raises, or another exception it raises. \<open>asyncfy\<close> awaits a coroutine
  function and runs any other function in a thread; both give the callable's outcome.
\<close>

datatype outcome = Returned ret | RaisedResponse response | Raised error

type_synonym handler = "request \<Rightarrow> request \<times> outcome"

type_synonym after_hook = "request \<Rightarrow> response \<Rightarrow> request \<times> response \<times> outcome"

type_synonym lifespan_fn = "(string \<times> pyval) list \<Rightarrow> (string \<times> pyval) list \<times> failure option"

text \<open>
  A key of the route table is the pattern string as registered or, after startup, the
  compiled pattern.
\<close>

datatype route_key = Raw string | Compiled string matcher

record application =
  app_routes :: "(route_key \<times> (string \<times> handler) list) list"
  app_startup :: "lifespan_fn list"
  app_shutdown :: "lifespan_fn list"
  app_before :: "handler list"
  app_after :: "after_hook list"
  app_serializer :: "pyval \<Rightarrow> error + string"
  app_max_content :: int

definition Application_init ::
  "(route_key \<times> (string \<times> handler) list) list \<Rightarrow> lifespan_fn list \<Rightarrow> lifespan_fn list
   \<Rightarrow> handler list \<Rightarrow> after_hook list \<Rightarrow> (pyval \<Rightarrow> error + string) \<Rightarrow> int \<Rightarrow> application" where
  "Application_init rs su sd bf af ser mc =
     \<lparr> app_routes = rs, app_startup = su, app_shutdown = sd, app_before = bf,
       app_after = af, app_serializer = ser, app_max_content = mc \<rparr>"

definition is_raw :: "string \<Rightarrow> route_key \<Rightarrow> bool" where
  "is_raw p k = (case k of Raw s \<Rightarrow> s = p | Compiled s m \<Rightarrow> False)"

definition route :: "application \<Rightarrow> string \<Rightarrow> string list \<Rightarrow> handler \<Rightarrow> application" where
  \<comment> \<open>the decorator of \<open>route\<close>:
      \<open>self._routes.setdefault(path, {}).update({method: func for method in methods})\<close>;
      a string is equal to no compiled pattern\<close>
  "route app p ms func =
     (let new = dict_of_items (map (\<lambda>m. (m, func)) ms)
      in if list_ex (\<lambda>(k, v). is_raw p k) (app_routes app)
         then app\<lparr>app_routes :=
                map (\<lambda>(k, v). if is_raw p k then (k, dict_update v new) else (k, v))
                  (app_routes app)\<rparr>
         else app\<lparr>app_routes := app_routes app @ [(Raw p, dict_update [] new)]\<rparr>)"

subsection \<open>The lifespan protocol\<close>

datatype message =
    LifespanStartupComplete
  | LifespanStartupFailed string
  | LifespanShutdownComplete
  | LifespanShutdownFailed string
  | HttpResponseStart int "(string \<times> string) list"
  | HttpResponseBody string

definition failure_message :: "failure \<Rightarrow> string" where
  \<comment> \<open>\<open>f"{type(e).__name__}: {e}"\<close>\<close>
  "failure_message f = (case f of Failure name text \<Rightarrow> name @ '': '' @ text)"

fun run_lifespan_fns ::
  "lifespan_fn list \<Rightarrow> (string \<times> pyval) list \<Rightarrow> (string \<times> pyval) list \<times> failure option" where
  \<comment> \<open>\<open>for func in funcs: await asyncfy(func, state)\<close>; the first exception ends the loop\<close>
  "run_lifespan_fns [] st = (st, None)"
| "run_lifespan_fns (f # fs) st =
     (case f st of
        (st', Some e) \<Rightarrow> (st', Some e)
      | (st', None) \<Rightarrow> run_lifespan_fns fs st')"

definition compile_key :: "stdlib \<Rightarrow> route_key \<Rightarrow> failure + route_key" where
  \<comment> \<open>\<open>re.compile(k)\<close>; a compiled pattern is returned as it is\<close>
  "compile_key L k =
     (case k of
        Raw s \<Rightarrow> (case re_compile L s of Inl e \<Rightarrow> Inl e | Inr m \<Rightarrow> Inr (Compiled s m))
      | Compiled s m \<Rightarrow> Inr (Compiled s m))"

fun compile_routes ::
  "stdlib \<Rightarrow> (route_key \<times> 'h) list \<Rightarrow> failure + (route_key \<times> 'h) list" where
  \<comment> \<open>\<open>{re.compile(k): v for k, v in self._routes.items()}\<close>\<close>
  "compile_routes L [] = Inr []"
| "compile_routes L ((k, v) # rs) =
     (case compile_key L k of
        Inl e \<Rightarrow> Inl e
      | Inr k' \<Rightarrow>
          (case compile_routes L rs of
             Inl e \<Rightarrow> Inl e
           | Inr rs' \<Rightarrow> Inr ((k', v) # rs')))"

record lifespan_state =
  ls_app :: application
  ls_state :: "(string \<times> pyval) list"
  ls_sent :: "message list"

datatype lifespan_end = LoopEnded lifespan_state | AwaitingEvent lifespan_state

fun lifespan :: "stdlib \<Rightarrow> lifespan_state \<Rightarrow> string list \<Rightarrow> lifespan_end" where
  \<comment> \<open>the \<open>while True\<close> loop of the lifespan branch over the types of the events that
      \<open>receive()\<close> delivers; when they are used up the loop waits in \<open>receive()\<close>\<close>
  "lifespan L s [] = AwaitingEvent s"
| "lifespan L s (ev # evs) =
     (if ev = ''lifespan.startup'' then
        (case run_lifespan_fns (app_startup (ls_app s)) (ls_state s) of
           (st', Some e) \<Rightarrow>
             LoopEnded (s\<lparr>ls_state := st',
                          ls_sent := ls_sent s @ [LifespanStartupFailed (failure_message e)]\<rparr>)
         | (st', None) \<Rightarrow>
             (case compile_routes L (app_routes (ls_app s)) of
                Inl e \<Rightarrow>
                  LoopEnded (s\<lparr>ls_state := st',
                               ls_sent := ls_sent s @ [LifespanStartupFailed (failure_message e)]\<rparr>)
              | Inr rs \<Rightarrow>
                  lifespan L
                    (s\<lparr>ls_app := (ls_app s)\<lparr>app_routes := rs\<rparr>, ls_state := st',
                       ls_sent := ls_sent s @ [LifespanStartupComplete]\<rparr>) evs))
      else if ev = ''lifespan.shutdown'' then
        (case run_lifespan_fns (app_shutdown (ls_app s)) (ls_state s) of
           (st', Some e) \<Rightarrow>
             LoopEnded (s\<lparr>ls_state := st',
                          ls_sent := ls_sent s @ [LifespanShutdownFailed (failure_message e)]\<rparr>)
         | (st', None) \<Rightarrow>
             LoopEnded (s\<lparr>ls_state := st',
                          ls_sent := ls_sent s @ [LifespanShutdownComplete]\<rparr>))
      else lifespan L s evs)"

text \<open>
  The specification's wording of the shutdown event, for comparison with the code's: every
  shutdown function runs in order, a failure is reported, and whatever the outcome
  shutdown-complete is emitted and the loop ends.
\<close>

definition spec_shutdown :: "lifespan_state \<Rightarrow> lifespan_end" where
  "spec_shutdown s =
     (case run_lifespan_fns (app_shutdown (ls_app s)) (ls_state s) of
        (st', Some e) \<Rightarrow>
          LoopEnded (s\<lparr>ls_state := st',
                       ls_sent := ls_sent s @ [LifespanShutdownFailed (failure_message e),
                                               LifespanShutdownComplete]\<rparr>)
      | (st', None) \<Rightarrow>
          LoopEnded (s\<lparr>ls_state := st', ls_sent := ls_sent s @ [LifespanShutdownComplete]\<rparr>))"

subsection \<open>The HTTP protocol\<close>

record scope =
  sc_type :: string
  sc_method :: string
  sc_path :: string
  sc_client :: "(string \<times> int) option"
  sc_query_string :: string
  sc_headers :: "(string \<times> string) list"
  sc_state :: "(string \<times> pyval) list option"

record body_event =
  ev_body :: string
  more_body :: bool

text \<open>
  The calls of hooks and handlers are recorded, in order: the before-hook and the
  after-hook by their position in their list, the handler by the position of its route and
  its method. \<open>t_consumed\<close> counts the body events taken from \<open>receive()\<close>.
\<close>

datatype call = CBefore nat | CHandler nat string | CAfter nat

record txn =
  t_request :: request
  t_calls :: "call list"
  t_consumed :: nat

text \<open>
  Where a step of the transaction leaves it: going on, with a response (raised or made),
  with another exception that goes up to the caller, or waiting in \<open>receive()\<close>.
\<close>

datatype flow = Continue txn | Respond response txn | Crash error txn | Wait txn

fun decode_pairs :: "stdlib \<Rightarrow> (string \<times> string) list \<Rightarrow> (string \<times> pyval) list option" where
  \<comment> \<open>\<open>[[k.decode(), v.decode()] for k, v in scope["headers"]]\<close>\<close>
  "decode_pairs L [] = Some []"
| "decode_pairs L ((k, v) # rest) =
     (case utf8_decode L k of None \<Rightarrow> None | Some k' \<Rightarrow>
      case utf8_decode L v of None \<Rightarrow> None | Some v' \<Rightarrow>
      case decode_pairs L rest of None \<Rightarrow> None | Some ps \<Rightarrow> Some ((k', VStr v') # ps))"

definition decode_headers :: "stdlib \<Rightarrow> (string \<times> string) list \<Rightarrow> txn \<Rightarrow> flow" where
  "decode_headers L raw t =
     (case decode_pairs L raw of
        None \<Rightarrow> Respond (Response_status L 400) t
      | Some ps \<Rightarrow>
          (case MultiDict_init L (APairs ps) of
             Inl e \<Rightarrow> Crash e t
           | Inr hs \<Rightarrow> Continue (t\<lparr>t_request := (t_request t)\<lparr>req_headers := hs\<rparr>\<rparr>)))"

definition load_cookies :: "stdlib \<Rightarrow> txn \<Rightarrow> flow" where
  \<comment> \<open>\<open>request.cookies.load(request.headers.get("cookie", ""))\<close>; the values of the
      request headers are strings\<close>
  "load_cookies L t =
     (case get L (req_headers (t_request t)) ''cookie'' (VStr []) of
        Inl e \<Rightarrow> Crash e t
      | Inr (VStr s) \<Rightarrow>
          (case cookie_load L (req_cookies (t_request t)) s of
             None \<Rightarrow> Respond (Response_status L 400) t
           | Some jar \<Rightarrow> Continue (t\<lparr>t_request := (t_request t)\<lparr>req_cookies := jar\<rparr>\<rparr>))
      | Inr _ \<Rightarrow> Crash TypeError t)"

fun read_body :: "stdlib \<Rightarrow> int \<Rightarrow> body_event list \<Rightarrow> txn \<Rightarrow> flow" where
  \<comment> \<open>the \<open>while True\<close> loop over the body events\<close>
  "read_body L mc [] t = Wait t"
| "read_body L mc (ev # evs) t =
     (let t' = t\<lparr>t_request := (t_request t)\<lparr>req_body := req_body (t_request t) @ ev_body ev\<rparr>,
                 t_consumed := Suc (t_consumed t)\<rparr>
      in if int (length (req_body (t_request t'))) > mc
         then Respond (Response_status L 413) t'
         else if \<not> more_body ev then Continue t'
         else read_body L mc evs t')"

definition str_values :: "(string \<times> string list) list \<Rightarrow> (string \<times> pyval) list" where
  "str_values d = map (\<lambda>(k, vs). (k, VList (map VStr vs))) d"

definition decode_content :: "stdlib \<Rightarrow> txn \<Rightarrow> flow" where
  \<comment> \<open>\<open>content_type = request.headers.get("content-type", "")\<close>, then
      \<open>json.loads(request.body.decode())\<close> or \<open>MultiDict(parse_qs(unquote(request.body)))\<close>\<close>
  "decode_content L t =
     (case get L (req_headers (t_request t)) ''content-type'' (VStr []) of
        Inl e \<Rightarrow> Crash e t
      | Inr (VStr content_type) \<Rightarrow>
          if contains ''application/json'' content_type then
            (case utf8_decode L (req_body (t_request t)) of
               None \<Rightarrow> Respond (Response_status L 400) t
             | Some s \<Rightarrow>
                 (case json_loads L s of
                    None \<Rightarrow> Respond (Response_status L 400) t
                  | Some v \<Rightarrow> Continue (t\<lparr>t_request := (t_request t)\<lparr>json := v\<rparr>\<rparr>)))
          else if contains ''application/x-www-form-urlencoded'' content_type then
            (case MultiDict_init L
                    (ADict (str_values (parse_qs_unquote L (req_body (t_request t))))) of
               Inl e \<Rightarrow> Crash e t
             | Inr f \<Rightarrow> Continue (t\<lparr>t_request := (t_request t)\<lparr>form := f\<rparr>\<rparr>))
          else Continue t
      | Inr _ \<Rightarrow> Crash TypeError t)"

fun run_before :: "stdlib \<Rightarrow> handler list \<Rightarrow> nat \<Rightarrow> txn \<Rightarrow> flow" where
  \<comment> \<open>\<open>for func in self._before: if ret := await asyncfy(func, request): raise
      Response.from_any(ret)\<close>\<close>
  "run_before L [] i t = Continue t"
| "run_before L (f # fs) i t =
     (case f (t_request t) of (rq, out) \<Rightarrow>
        (let t' = t\<lparr>t_request := rq, t_calls := t_calls t @ [CBefore i]\<rparr>
         in case out of
              Returned r \<Rightarrow>
                if truthy r
                then (case from_any L r of Inl e \<Rightarrow> Crash e t' | Inr resp \<Rightarrow> Respond resp t')
                else run_before L fs (Suc i) t'
            | RaisedResponse resp \<Rightarrow> Respond resp t'
            | Raised e \<Rightarrow> Crash e t'))"

definition method_not_allowed :: "stdlib \<Rightarrow> (string \<times> handler) list \<Rightarrow> response" where
  \<comment> \<open>\<open>response = Response(HTTPStatus.METHOD_NOT_ALLOWED);
      response.headers["allow"] = ", ".join(methods)\<close>\<close>
  "method_not_allowed L methods =
     (let r = Response_status L 405
      in r\<lparr>headers := setitem L (headers r) ''allow'' (VStr (join '', '' (map fst methods)))\<rparr>)"

definition call_handler :: "stdlib \<Rightarrow> handler \<Rightarrow> call \<Rightarrow> txn \<Rightarrow> flow" where
  \<comment> \<open>\<open>ret = await asyncfy(func, request); response = Response.from_any(ret)\<close>\<close>
  "call_handler L func c t =
     (case func (t_request t) of (rq, out) \<Rightarrow>
        (let t' = t\<lparr>t_request := rq, t_calls := t_calls t @ [c]\<rparr>
         in case out of
              Returned r \<Rightarrow>
                (case from_any L r of Inl e \<Rightarrow> Crash e t' | Inr resp \<Rightarrow> Respond resp t')
            | RaisedResponse resp \<Rightarrow> Respond resp t'
            | Raised e \<Rightarrow> Crash e t'))"

fun resolve :: "stdlib \<Rightarrow> (route_key \<times> (string \<times> handler) list) list \<Rightarrow> nat \<Rightarrow> txn \<Rightarrow> flow" where
  \<comment> \<open>\<open>for route, methods in self._routes.items(): ... else: response =
      Response(HTTPStatus.NOT_FOUND)\<close>; a string key has no \<open>fullmatch\<close>\<close>
  "resolve L [] i t = Respond (Response_status L 404) t"
| "resolve L ((Raw s, methods) # rs) i t = Crash AttributeError t"
| "resolve L ((Compiled s m, methods) # rs) i t =
     (case m (path (t_request t)) of
        Some groups \<Rightarrow>
          (let t' = t\<lparr>t_request := (t_request t)\<lparr>params := groups\<rparr>\<rparr>
           in case map_of methods (req_method (t_request t')) of
                Some func \<Rightarrow> call_handler L func (CHandler i (req_method (t_request t'))) t'
              | None \<Rightarrow> Respond (method_not_allowed L methods) t')
      | None \<Rightarrow> resolve L rs (Suc i) t)"

definition step :: "flow \<Rightarrow> (txn \<Rightarrow> flow) \<Rightarrow> flow" where
  \<comment> \<open>the next statement of the \<open>try\<close> block runs only when nothing was raised\<close>
  "step fl f = (case fl of Continue t \<Rightarrow> f t | other \<Rightarrow> other)"

definition run_main ::
  "stdlib \<Rightarrow> application \<Rightarrow> (string \<times> string) list \<Rightarrow> body_event list \<Rightarrow> txn \<Rightarrow> flow" where
  \<comment> \<open>the \<open>try\<close> block of the HTTP branch, up to \<open>except Response as early_response\<close>\<close>
  "run_main L app raw evs t =
     step (step (step (step (step (decode_headers L raw t)
       (load_cookies L))
       (read_body L (app_max_content app) evs))
       (decode_content L))
       (run_before L (app_before app) 0))
       (resolve L (app_routes app) 0)"

text \<open>
  The after-chain ends \<open>Completed\<close> when every hook ran and none gave a response,
  \<open>Replaced\<close> when a hook gave the response that replaces the one in flight.
\<close>

datatype after_end = Completed response txn | Replaced response txn | AfterCrash error txn

fun run_after :: "stdlib \<Rightarrow> after_hook list \<Rightarrow> nat \<Rightarrow> response \<Rightarrow> txn \<Rightarrow> after_end" where
  \<comment> \<open>\<open>for func in self._after: if ret := await asyncfy(func, request, response): raise
      Response.from_any(ret)\<close>, with \<open>except Response as early_response\<close>\<close>
  "run_after L [] i resp t = Completed resp t"
| "run_after L (f # fs) i resp t =
     (case f (t_request t) resp of (rq, resp', out) \<Rightarrow>
        (let t' = t\<lparr>t_request := rq, t_calls := t_calls t @ [CAfter i]\<rparr>
         in case out of
              Returned r \<Rightarrow>
                if truthy r
                then (case from_any L r of Inl e \<Rightarrow> AfterCrash e t' | Inr early \<Rightarrow> Replaced early t')
                else run_after L fs (Suc i) resp' t'
            | RaisedResponse early \<Rightarrow> Replaced early t'
            | Raised e \<Rightarrow> AfterCrash e t'))"

definition finalize :: "stdlib \<Rightarrow> response \<Rightarrow> error + response" where
  \<comment> \<open>\<open>response.headers.setdefault("content-length", len(response.body))\<close> and
      \<open>response.headers._update({"set-cookie": [...]})\<close>\<close>
  "finalize L resp =
     (case setdefault L (headers resp) ''content-length'' (VInt (int (length (body resp)))) of
        (hs, Inl e) \<Rightarrow> Inl e
      | (hs, Inr v) \<Rightarrow>
          Inr (resp\<lparr>headers :=
                 raw_update hs [(''set-cookie'', map VStr (cookie_output L (cookies resp)))]\<rparr>))"

definition response_messages :: "stdlib \<Rightarrow> response \<Rightarrow> message list" where
  \<comment> \<open>the two events sent for a response; \<open>str(k).encode()\<close> of a key is the key\<close>
  "response_messages L resp =
     [HttpResponseStart (status resp)
        (concat (map (\<lambda>(k, l). map (\<lambda>v. (k, py_str L v)) l) (raw_items (headers resp)))),
      HttpResponseBody (body resp)]"

datatype call_end =
    Sent "message list" response txn
  | Failed error
  | Waiting txn

definition finish :: "stdlib \<Rightarrow> response \<Rightarrow> txn \<Rightarrow> call_end" where
  "finish L resp t =
     (case finalize L resp of
        Inl e \<Rightarrow> Failed e
      | Inr resp' \<Rightarrow> Sent (response_messages L resp') resp' t)"

definition new_request :: "stdlib \<Rightarrow> scope \<Rightarrow> error + request" where
  \<comment> \<open>\<open>Request(method=scope["method"], path=scope["path"],
      ip=scope.get("client", ("", 0))[0], args=parse_qs(unquote(scope["query_string"])),
      state=state.copy())\<close> with \<open>state = scope.get("state", {})\<close>\<close>
  "new_request L sc =
     Request_init L (sc_method sc) (sc_path sc)
       (case sc_client sc of None \<Rightarrow> [] | Some (host, port) \<Rightarrow> host) None
       (ADict (str_values (parse_qs_unquote L (sc_query_string sc)))) ANone [] [] VNone
       ANone (Some (case sc_state sc of None \<Rightarrow> [] | Some st \<Rightarrow> st))"

definition start_txn :: "request \<Rightarrow> txn" where
  "start_txn rq = \<lparr>t_request = rq, t_calls = [], t_consumed = 0\<rparr>"

definition http_call :: "stdlib \<Rightarrow> application \<Rightarrow> scope \<Rightarrow> body_event list \<Rightarrow> call_end" where
  \<comment> \<open>the branch of \<open>Application.__call__\<close> for a scope of type \<open>http\<close>. The \<open>try\<close>
      block does not end in \<open>Continue\<close> (lemma \<open>run_main_ends\<close>): its last statement, the
      loop over the routes, gives a response or an exception.\<close>
  "http_call L app sc evs =
     (case new_request L sc of
        Inl e \<Rightarrow> Failed e
      | Inr rq \<Rightarrow>
          (case run_main L app (sc_headers sc) evs (start_txn rq) of
             Continue t \<Rightarrow> Waiting t
           | Crash e t \<Rightarrow> Failed e
           | Wait t \<Rightarrow> Waiting t
           | Respond resp t \<Rightarrow>
               (case run_after L (app_after app) 0 resp t of
                  AfterCrash e t' \<Rightarrow> Failed e
                | Completed resp' t' \<Rightarrow> finish L resp' t'
                | Replaced resp' t' \<Rightarrow> finish L resp' t')))"

text \<open>
  \<open>Application.__call__\<close>: the scope's type selects the protocol. The events that
  \<open>receive()\<close> delivers are the types of the lifespan events, or the body events.
\<close>

datatype asgi_end = LifespanEnd lifespan_end | HttpEnd call_end | Unsupported error

definition application_call ::
  "stdlib \<Rightarrow> application \<Rightarrow> scope \<Rightarrow> string list \<Rightarrow> body_event list \<Rightarrow> asgi_end" where
  "application_call L app sc lifespan_events body_events =
     (if sc_type sc = ''lifespan'' then
        LifespanEnd (lifespan L
          \<lparr>ls_app = app, ls_state = (case sc_state sc of None \<Rightarrow> [] | Some st \<Rightarrow> st),
           ls_sent = []\<rparr> lifespan_events)
      else if sc_type sc = ''http'' then HttpEnd (http_call L app sc body_events)
      else Unsupported NotImplementedError)"

text \<open>
  The statements of the \<open>try\<close> block as a list, to speak of any one of them: each runs when
  the ones before it raised nothing.
\<close>

definition stages ::
  "stdlib \<Rightarrow> application \<Rightarrow> (string \<times> string) list \<Rightarrow> body_event list \<Rightarrow> (txn \<Rightarrow> flow) list" where
  "stages L app raw evs =
     [decode_headers L raw, load_cookies L, read_body L (app_max_content app) evs,
      decode_content L, run_before L (app_before app) 0, resolve L (app_routes app) 0]"

fun run_steps :: "(txn \<Rightarrow> flow) list \<Rightarrow> txn \<Rightarrow> flow" where
  "run_steps [] t = Continue t"
| "run_steps (f # fs) t = step (f t) (run_steps fs)"

definition no_match :: "string \<Rightarrow> (route_key \<times> 'h) list \<Rightarrow> bool" where
  \<comment> \<open>every key is a compiled pattern and none matches the whole path\<close>
  "no_match p rs =
     list_all (\<lambda>(k, ms). case k of Compiled s m \<Rightarrow> m p = None | Raw s \<Rightarrow> False) rs"

text \<open>\<open>str\<close> of an integer, in decimal.\<close>

fun digits :: "nat \<Rightarrow> string" where
  "digits n =
     (if n < 10 then [char_of (48 + n)] else digits (n div 10) @ [char_of (48 + n mod 10)])"

definition str_int :: "int \<Rightarrow> string" where
  "str_int i = (if i < 0 then CHR ''-'' # digits (nat (- i)) else digits (nat i))"

text \<open>
  A library for the examples: literal patterns without groups, no cookies, every byte
  string decodes to itself, \<open>json.dumps\<close> on the empty dict only, \<open>str\<close> on strings and
  integers, \<open>lower\<close> on ASCII strings only.
\<close>

definition example_lib :: stdlib where
  "example_lib =
     \<lparr> http_phrase = (\<lambda>n. if n = 200 then Some ''OK''
                          else if n = 204 then Some ''No Content''
                          else if n = 400 then Some ''Bad Request''
                          else if n = 404 then Some ''Not Found''
                          else if n = 405 then Some ''Method Not Allowed''
                          else if n = 413 then Some ''Request Entity Too Large''
                          else None),
       json_dumps = (\<lambda>v. case v of VDict [] \<Rightarrow> Inr ''{}'' | _ \<Rightarrow> Inl TypeError),
       json_loads = (\<lambda>s. None),
       utf8_decode = (\<lambda>s. Some s),
       parse_qs_unquote = (\<lambda>s. []),
       cookie_load = (\<lambda>jar s. if s = [] then Some jar else None),
       cookie_output = (\<lambda>jar. []),
       re_compile = (\<lambda>s. Inr (\<lambda>p. if p = s then Some [] else None)),
       py_str = (\<lambda>v. case v of VStr s \<Rightarrow> s | VInt i \<Rightarrow> str_int i | _ \<Rightarrow> []),
       unicode_lower = (\<lambda>s. s) \<rparr>"

text \<open>
  Keys outside ASCII for the examples: the UTF-8 encodings of the capital and of the small
  letter e with acute accent, and a library whose \<open>lower\<close> maps the first to the second, as
  Python's does.
\<close>

definition e_acute_capital :: string where
  "e_acute_capital = [CHR 0xC3, CHR 0x89]"

definition e_acute_small :: string where
  "e_acute_small = [CHR 0xC3, CHR 0xA9]"

definition latin_lib :: stdlib where
  "latin_lib =
     example_lib\<lparr>unicode_lower := (\<lambda>s. if s = e_acute_capital then e_acute_small else s)\<rparr>"

definition is_list :: "pyval \<Rightarrow> bool" where
  \<comment> \<open>\<open>isinstance(v, list)\<close>\<close>
  "is_list v = (case v of VList xs \<Rightarrow> True | _ \<Rightarrow> False)"


text \<open>Values for the examples.\<close>

definition example_app :: application where
  "example_app = Application_init [] [] [] [] [] (\<lambda>v. Inr ''custom'') 1048576"

definition failing_fn :: lifespan_fn where
  \<comment> \<open>a lifespan function that raises \<open>RuntimeError("db")\<close>\<close>
  "failing_fn st = (st, Some (Failure ''RuntimeError'' ''db''))"

definition marking_fn :: "string \<Rightarrow> lifespan_fn" where
  \<comment> \<open>a lifespan function that stores a key in the state\<close>
  "marking_fn k st = (AList.update k VNone st, None)"

definition dict_handler :: handler where
  \<comment> \<open>a handler that returns the empty dict\<close>
  "dict_handler rq = (rq, Returned (RVal (VDict [])))"

definition literal :: "string \<Rightarrow> route_key" where
  \<comment> \<open>the compiled pattern of a string without special characters\<close>
  "literal s = Compiled s (\<lambda>p. if p = s then Some [] else None)"

definition example_scope :: "string \<Rightarrow> string \<Rightarrow> scope" where
  "example_scope m p =
     \<lparr>sc_type = ''http'', sc_method = m, sc_path = p, sc_client = None,
      sc_query_string = [], sc_headers = [], sc_state = None\<rparr>"

definition messages :: "call_end \<Rightarrow> message list" where
  "messages c = (case c of Sent ms r t \<Rightarrow> ms | _ \<Rightarrow> [])"

definition calls_made :: "call_end \<Rightarrow> call list" where
  "calls_made c = (case c of Sent ms r t \<Rightarrow> t_calls t | _ \<Rightarrow> [])"

definition example_request :: "string \<Rightarrow> string \<Rightarrow> request" where
  "example_request m p =
     \<lparr>req_method = m, path = p, ip = [], params = [], args = [], req_headers = [],
      req_cookies = [], req_body = [], json = VNone, form = [], state = []\<rparr>"

definition started :: "stdlib \<Rightarrow> application \<Rightarrow> application" where
  \<comment> \<open>the application after the startup event\<close>
  "started L app =
     (case lifespan L \<lparr>ls_app = app, ls_state = [], ls_sent = []\<rparr> [''lifespan.startup''] of
        AwaitingEvent s \<Rightarrow> ls_app s
      | LoopEnded s \<Rightarrow> ls_app s)"

definition three_chunks :: "body_event list" where
  "three_chunks = [\<lparr>ev_body = ''ab'', more_body = True\<rparr>, \<lparr>ev_body = ''cd'', more_body = True\<rparr>,
                   \<lparr>ev_body = ''ef'', more_body = False\<rparr>]"

definition small_app :: application where
  "small_app = example_app\<lparr>app_routes := [(literal ''/'', [(''POST'', dict_handler)])],
                             app_max_content := 3\<rparr>"

definition quiet_hook :: after_hook where
  \<comment> \<open>an after-hook that returns \<open>None\<close>\<close>
  "quiet_hook rq resp = (rq, resp, Returned (RVal VNone))"

definition echo_status_hook :: after_hook where
  \<comment> \<open>an after-hook that returns the status of the response it is given\<close>
  "echo_status_hook rq resp = (rq, resp, Returned (RVal (VInt (status resp))))"

definition raising_hook :: after_hook where
  \<comment> \<open>an after-hook that raises \<open>KeyError\<close>\<close>
  "raising_hook rq resp = (rq, resp, Raised KeyError)"

definition hooked_app :: application where
  "hooked_app = small_app\<lparr>app_after := [quiet_hook, echo_status_hook, raising_hook]\<rparr>"

section \<open>Facts about dictionaries\<close>

lemma map_of_dict_update:
  "map_of (dict_update d items) = map_of d ++ map_of (rev items)"
proof (induction items arbitrary: d)
  case Nil
  show ?case by (simp add: dict_update_def)
next
  case (Cons a items)
  obtain k v where a: "a = (k, v)" by (cases a)
  have "dict_update d (a # items) = dict_update (AList.update k v d) items"
    by (simp add: dict_update_def a)
  then show ?case
    using Cons.IH [of "AList.update k v d"]
    by (simp add: a update_conv' map_add_def fun_eq_iff split: option.splits)
qed

lemma map_of_setitem:
  "map_of (setitem L m key v) =
     (map_of m)(lower L key \<mapsto> (case map_of m (lower L key) of Some vs \<Rightarrow> vs | None \<Rightarrow> []) @ [v])"
  by (simp add: setitem_def update_conv' split: option.splits)

lemma nonempty_values_update:
  "nonempty_values m \<Longrightarrow> vs \<noteq> [] \<Longrightarrow> nonempty_values (AList.update k vs m)"
  by (induction m) (auto simp: nonempty_values_def)

lemma nonempty_values_update_twice:
  "nonempty_values m \<Longrightarrow> vs \<noteq> [] \<Longrightarrow>
   nonempty_values (AList.update k vs (AList.update k ws m))"
  by (induction m) (auto simp: nonempty_values_def)

lemma nonempty_values_delete: "nonempty_values m \<Longrightarrow> nonempty_values (AList.delete k m)"
  by (induction m) (auto simp: nonempty_values_def)

lemma nonempty_values_lookup: "nonempty_values m \<Longrightarrow> map_of m k = Some vs \<Longrightarrow> vs \<noteq> []"
  by (induction m) (auto simp: nonempty_values_def split: if_splits)

lemma nonempty_setitem: "nonempty_values m \<Longrightarrow> nonempty_values (setitem L m k v)"
  by (simp add: setitem_def nonempty_values_update nonempty_values_update_twice
      split: option.splits)

lemma nonempty_setdefault: "nonempty_values m \<Longrightarrow> nonempty_values (fst (setdefault L m k d))"
  by (simp add: setdefault_def nonempty_values_update split: option.splits)

lemma nonempty_pop: "nonempty_values m \<Longrightarrow> nonempty_values (fst (pop L m k d))"
proof -
  assume inv: "nonempty_values m"
  show ?thesis
  proof (cases "map_of m (lower L k)")
    case None
    with inv show ?thesis by (simp add: pop_def)
  next
    case (Some vs)
    show ?thesis
    proof (cases "length vs > 1")
      case True
      then have "butlast vs \<noteq> []" by (cases vs) auto
      with inv Some True show ?thesis
        by (simp add: pop_def nonempty_values_update)
    next
      case False
      with inv Some show ?thesis
        by (simp add: pop_def nonempty_values_delete)
    qed
  qed
qed

lemma setdefault_lookup:
  "map_of (fst (setdefault L m k d)) (lower L k) =
     (case map_of m (lower L k) of Some vs \<Rightarrow> Some vs | None \<Rightarrow> Some [d])"
  by (simp add: setdefault_def update_conv' split: option.splits)

lemma pop_lookup:
  "map_of (fst (pop L m k d)) (lower L k) =
     (case map_of m (lower L k) of
        Some vs \<Rightarrow> if length vs > 1 then Some (butlast vs) else None
      | None \<Rightarrow> None)"
  by (simp add: pop_def update_conv' delete_conv' split: option.splits)

section \<open>MultiDict: no key with an empty list\<close>

text \<open>
  Claim C10. \<open>__setitem__\<close>, \<open>setdefault\<close> and \<open>pop\<close> each preserve the invariant that every
  key present owns a non-empty list of values. \<open>__setitem__\<close> appends the value to the
  key's list, which starts empty when the key is absent; \<open>setdefault\<close> stores the singleton
  of the default only when the key is absent and leaves the dict as it is otherwise;
  \<open>pop\<close> drops only the most recent value when the key has more than one and removes the
  key otherwise.
\<close>

theorem multidict_ops_keep_nonempty:
  assumes "nonempty_values m"
  shows "nonempty_values (setitem L m k v)
       \<and> map_of (setitem L m k v) (lower L k) = Some (raw_get L m k [] @ [v])
       \<and> nonempty_values (fst (setdefault L m k d))
       \<and> map_of (fst (setdefault L m k d)) (lower L k) = Some (raw_get L m k [d])
       \<and> (lower L k \<in> fst ` set m \<longrightarrow> fst (setdefault L m k d) = m)
       \<and> nonempty_values (fst (pop L m k d))
       \<and> map_of (fst (pop L m k d)) (lower L k) =
           (if length (raw_get L m k []) > 1 then Some (butlast (raw_get L m k [])) else None)"
proof -
  have a: "map_of (fst (setdefault L m k d)) (lower L k) = Some (raw_get L m k [d])"
    by (simp add: setdefault_lookup raw_get_def split: option.splits)
  have b: "lower L k \<in> fst ` set m \<longrightarrow> fst (setdefault L m k d) = m"
    by (auto simp: setdefault_def map_of_eq_None_iff split: option.splits)
  have c: "map_of (fst (pop L m k d)) (lower L k) =
           (if length (raw_get L m k []) > 1 then Some (butlast (raw_get L m k [])) else None)"
    by (simp add: pop_lookup raw_get_def split: option.splits)
  have s: "map_of (setitem L m k v) (lower L k) = Some (raw_get L m k [] @ [v])"
    by (simp add: map_of_setitem raw_get_def split: option.splits)
  from assms a b c s show ?thesis
    by (simp add: nonempty_setitem nonempty_setdefault nonempty_pop)
qed

text \<open>The invariant and the three operations on \<open>{"a": [1, 2]}\<close>.\<close>

theorem multidict_ops_keep_nonempty_witness:
  "nonempty_values [(''a'', [VInt 1, VInt 2])]
   \<and> setitem example_lib [(''a'', [VInt 1, VInt 2])] ''A'' (VInt 3) = [(''a'', [VInt 1, VInt 2, VInt 3])]
   \<and> fst (setdefault example_lib [(''a'', [VInt 1, VInt 2])] ''B'' (VInt 3)) = [(''a'', [VInt 1, VInt 2]), (''b'', [VInt 3])]
   \<and> fst (pop example_lib [(''a'', [VInt 1, VInt 2])] ''A'' VNone) = [(''a'', [VInt 1])]
   \<and> nonempty_values (fst (pop example_lib [(''a'', [VInt 1, VInt 2])] ''A'' VNone))"
proof -
  have h: "nonempty_values [(''a'', [VInt 1, VInt 2])]"
    by (simp add: nonempty_values_def)
  have e: "setitem example_lib [(''a'', [VInt 1, VInt 2])] ''A'' (VInt 3) = [(''a'', [VInt 1, VInt 2, VInt 3])]"
    "fst (setdefault example_lib [(''a'', [VInt 1, VInt 2])] ''B'' (VInt 3)) = [(''a'', [VInt 1, VInt 2]), (''b'', [VInt 3])]"
    "fst (pop example_lib [(''a'', [VInt 1, VInt 2])] ''A'' VNone) = [(''a'', [VInt 1])]"
    by code_simp+
  from multidict_ops_keep_nonempty [OF h, of example_lib "''A''" VNone VNone] h e show ?thesis by simp
qed

section \<open>MultiDict: reading after two insertions\<close>







lemma map_of_dict_of_items: "map_of (dict_of_items items) = map_of (rev items)"
  by (simp add: dict_of_items_def map_of_dict_update)

lemma map_of_rev_last:
  "k \<notin> fst ` set ys \<Longrightarrow> map_of (rev (xs @ (k, v) # ys)) k = Some v"
  by (simp add: map_add_def map_of_eq_None_iff [THEN iffD2] split: option.splits)

lemma lowered_last:
  assumes "lower L k \<notin> lower L ` fst ` set d2"
  shows "map_of (rev (map (\<lambda>(k, v). (lower L k, as_values v)) (d1 @ (k, v) # d2))) (lower L k)
         = Some (as_values v)"
proof -
  let ?f = "\<lambda>(k, v). (lower L k, as_values v)"
  have "fst ` set (map ?f d2) = lower L ` fst ` set d2"
    by (force simp: image_iff)
  with assms have "lower L k \<notin> fst ` set (map ?f d2)" by simp
  from map_of_rev_last [OF this, of "map ?f d1" "as_values v"] show ?thesis by simp
qed



section \<open>MultiDict: construction from a flat dict\<close>

text \<open>
  Claim C9, as the code has it. Constructing a MultiDict from a plain dict \<open>d\<close> stores, for
  every key \<open>k\<close> of \<open>d\<close> whose value \<open>v\<close> is not a list and which is not followed in \<open>d\<close> by
  a key with the same lowercase form, the singleton \<open>[v]\<close> under the lowercased \<open>k\<close>. The
  lowercase form is the one \<open>str.lower()\<close> gives, for ASCII keys and for others.
\<close>

theorem init_from_flat_dict:
  assumes "distinct (map fst d)" and "d = d1 @ (k, v) # d2"
    and "lower L k \<notin> lower L ` fst ` set d2" and "\<not> is_list v"
  shows "\<exists>m. MultiDict_init L (ADict d) = Inr m \<and> map_of m (lower L k) = Some [v]"
proof -
  from assms(4) have "as_values v = [v]"
    by (cases v) (simp_all add: as_values_def is_list_def)
  with lowered_last [OF assms(3), of d1 v] assms(2) show ?thesis
    by (simp add: MultiDict_init_def init_from_dict_def init_from_pairs_def map_of_dict_of_items)
qed

text \<open>
  Claim C9 as stated, for every key of every flat dict, fails where two keys differ only
  in case: \<open>MultiDict({"A": 1, "a": 2})\<close> is \<open>{"a": [2]}\<close>, so the key \<open>"A"\<close> with value
  \<open>1\<close> is not stored as \<open>[1]\<close>.
\<close>

theorem init_from_flat_dict_counterexample:
  "MultiDict_init example_lib (ADict [(''A'', VInt 1), (''a'', VInt 2)]) = Inr [(''a'', [VInt 2])]
   \<and> map_of [(''a'', [VInt 2])] (lower example_lib ''A'') \<noteq> Some [VInt 1]"
  by code_simp

text \<open>
  The same with two keys outside ASCII that differ only in case: the dict with the capital
  and the small e with acute accent as keys becomes a MultiDict with the one key in small
  letters and the value of the second.
\<close>

lemma init_from_accented_dict:
  "MultiDict_init latin_lib (ADict [(e_acute_capital, VInt 1), (e_acute_small, VInt 2)])
     = Inr [(e_acute_small, [VInt 2])]"
  by code_simp

text \<open>On the dict of the counterexample the last of the two keys is stored as the claim says.\<close>

theorem init_from_flat_dict_witness:
  "distinct (map fst [(''A'', VInt 1), (''a'', VInt 2)])
   \<and> lower example_lib ''a'' \<notin> lower example_lib ` fst ` set ([] :: (string \<times> pyval) list) \<and> \<not> is_list (VInt 2)
   \<and> (\<exists>m. MultiDict_init example_lib (ADict [(''A'', VInt 1), (''a'', VInt 2)]) = Inr m
          \<and> map_of m ''a'' = Some [VInt 2])"
proof -
  have h1: "distinct (map fst [(''A'', VInt 1), (''a'', VInt 2)])" by simp
  have h2: "[(''A'', VInt 1), (''a'', VInt 2)] = [(''A'', VInt 1)] @ (''a'', VInt 2) # []" by simp
  have h3: "lower example_lib ''a'' \<notin> lower example_lib ` fst ` set ([] :: (string \<times> pyval) list)" by simp
  have h4: "\<not> is_list (VInt 2)" by (simp add: is_list_def)
  have e: "lower example_lib ''a'' = ''a''" by code_simp
  from init_from_flat_dict [OF h1 h2 h3 h4] h1 h3 h4 e show ?thesis by simp
qed

section \<open>MultiDict: bulk update\<close>










text \<open>
  With two keys outside ASCII that differ only in case, the value of the second is the
  one kept.
\<close>

lemma update_accented_keys:
  "update latin_lib [] [(e_acute_capital, VInt 1), (e_acute_small, VInt 2)]
     = [(e_acute_small, [VInt 2])]"
  by code_simp


section \<open>Lifespan: the shutdown event\<close>

lemma run_lifespan_fns_append:
  "run_lifespan_fns (xs @ ys) st =
     (case run_lifespan_fns xs st of
        (st', Some e) \<Rightarrow> (st', Some e)
      | (st', None) \<Rightarrow> run_lifespan_fns ys st')"
  by (induction xs arbitrary: st) (auto split: prod.splits option.splits)

lemma run_lifespan_fns_in_order:
  "run_lifespan_fns fs st = (st', None) \<Longrightarrow> st' = foldl (\<lambda>s f. fst (f s)) st fs"
  by (induction fs arbitrary: st) (auto split: prod.splits option.splits)

text \<open>
  Claim C6, as the code has it. On a shutdown event the shutdown functions run in
  registration order, each on the state the one before it left. When all of them return,
  shutdown-complete is emitted and the loop ends. When one fails, the functions after it
  do not run, shutdown-failed with the description of the failure is emitted and the loop
  ends: shutdown-complete is not emitted then. Events after the shutdown event are not
  received.
\<close>

theorem shutdown_event_outcome:
  assumes "app_shutdown (ls_app s) = pre @ post"
    and "run_lifespan_fns pre (ls_state s) = (st1, None)"
  shows "st1 = foldl (\<lambda>st f. fst (f st)) (ls_state s) pre
       \<and> (post = [] \<longrightarrow>
            lifespan L s (''lifespan.shutdown'' # evs) =
              LoopEnded (s\<lparr>ls_state := st1,
                           ls_sent := ls_sent s @ [LifespanShutdownComplete]\<rparr>))
       \<and> (post = f # rest \<and> f st1 = (st2, Some e) \<longrightarrow>
            lifespan L s (''lifespan.shutdown'' # evs) =
              LoopEnded (s\<lparr>ls_state := st2,
                           ls_sent := ls_sent s @ [LifespanShutdownFailed (failure_message e)]\<rparr>))"
  using assms
  by (auto simp: run_lifespan_fns_append run_lifespan_fns_in_order)

text \<open>
  Three shutdown functions of which the second fails: the first has run, the third has
  not, and the only event emitted is shutdown-failed.
\<close>

theorem shutdown_event_outcome_witness:
  "lifespan example_lib
     \<lparr>ls_app = example_app\<lparr>app_shutdown := [marking_fn ''a'', failing_fn, marking_fn ''b'']\<rparr>,
      ls_state = [], ls_sent = []\<rparr>
     [''lifespan.shutdown'', ''lifespan.startup'']
   = LoopEnded \<lparr>ls_app = example_app\<lparr>app_shutdown := [marking_fn ''a'', failing_fn, marking_fn ''b'']\<rparr>,
                 ls_state = [(''a'', VNone)],
                 ls_sent = [LifespanShutdownFailed ''RuntimeError: db'']\<rparr>"
proof -
  let ?s = "\<lparr>ls_app = example_app\<lparr>app_shutdown := [marking_fn ''a'', failing_fn, marking_fn ''b'']\<rparr>,
      ls_state = [], ls_sent = []\<rparr>"
  have h1: "app_shutdown (ls_app ?s) = [marking_fn ''a''] @ [failing_fn, marking_fn ''b'']"
    by simp
  have h2: "run_lifespan_fns [marking_fn ''a''] (ls_state ?s) = ([(''a'', VNone)], None)"
    by (simp add: marking_fn_def)
  have h3: "failing_fn [(''a'', VNone)] = ([(''a'', VNone)], Some (Failure ''RuntimeError'' ''db''))"
    by (simp add: failing_fn_def)
  from shutdown_event_outcome [OF h1 h2, where f = failing_fn and rest = "[marking_fn ''b'']"
      and ?st2.0 = "[(''a'', VNone)]" and e = "Failure ''RuntimeError'' ''db''"
      and L = example_lib and evs = "[''lifespan.startup'']"] h3
  show ?thesis by (simp add: failure_message_def)
qed

text \<open>
  Claim C6 as stated fails: with one shutdown function that raises, the loop ends after
  shutdown-failed and shutdown-complete is not among the events emitted, where the
  specification's wording has both events.
\<close>

theorem shutdown_complete_after_failure_counterexample:
  "lifespan example_lib
     \<lparr>ls_app = example_app\<lparr>app_shutdown := [failing_fn]\<rparr>, ls_state = [], ls_sent = []\<rparr>
     [''lifespan.shutdown'']
   = LoopEnded \<lparr>ls_app = example_app\<lparr>app_shutdown := [failing_fn]\<rparr>, ls_state = [],
                 ls_sent = [LifespanShutdownFailed ''RuntimeError: db'']\<rparr>
   \<and> LifespanShutdownComplete \<notin> set [LifespanShutdownFailed ''RuntimeError: db'']
   \<and> spec_shutdown
       \<lparr>ls_app = example_app\<lparr>app_shutdown := [failing_fn]\<rparr>, ls_state = [], ls_sent = []\<rparr>
     = LoopEnded \<lparr>ls_app = example_app\<lparr>app_shutdown := [failing_fn]\<rparr>, ls_state = [],
                   ls_sent = [LifespanShutdownFailed ''RuntimeError: db'',
                              LifespanShutdownComplete]\<rparr>"
  by (simp add: failing_fn_def failure_message_def spec_shutdown_def)

section \<open>Response: a handler that returns a mapping\<close>

lemma lower_literals:
  "lower L ''content-type'' = ''content-type''"
  "lower L ''content-length'' = ''content-length''"
  "lower L ''allow'' = ''allow''"
  "lower L ''cookie'' = ''cookie''"
  "lower L ''set-cookie'' = ''set-cookie''"
  by code_simp+

lemma Response_init_plain:
  "Response_init L st ANone [] bd (json_dumps L) = Inr (Response_plain L st bd)"
  by (simp add: Response_init_def MultiDict_init_def init_from_dict_def init_from_pairs_def setdefault_def lower_literals
      Response_plain_def)

text \<open>
  A mapping is normalized to status 200 with content-type \<open>application/json\<close>, and its
  body is made by \<open>json.dumps\<close>, the default \<open>dumps\<close> of a fresh \<open>Response\<close>.
\<close>

lemma from_any_mapping:
  "from_any L (RVal (VDict d)) =
     (case json_dumps L (VDict d) of
        Inl e \<Rightarrow> Inl e
      | Inr s \<Rightarrow>
          Inr \<lparr>status = 200,
               description = (case http_phrase L 200 of Some p \<Rightarrow> p | None \<Rightarrow> []),
               headers = [(''content-type'', [VStr ''application/json''])],
               cookies = [], body = s, dumps = json_dumps L\<rparr>)"
  by (simp add: from_any_def Response_status_def Response_plain_def Response_init_def
      MultiDict_init_def init_from_dict_def init_from_pairs_def dict_of_items_def dict_update_def as_values_def
      setdefault_def lower_literals split: sum.splits)

text \<open>No transaction depends on the serializer the application was configured with.\<close>

lemma serializer_not_read:
  "http_call L (app\<lparr>app_serializer := ser\<rparr>) sc evs = http_call L app sc evs"
  by (simp add: http_call_def run_main_def cong: flow.case_cong sum.case_cong)

text \<open>
  Claim C3 at an input where the code departs from it. The application is configured with
  a serializer that gives \<open>custom\<close> for every mapping, and the handler of \<open>GET /\<close> returns
  the empty dict. The response has status 200 and content-type \<open>application/json\<close>, but
  its body is \<open>{}\<close>, the output of \<open>json.dumps\<close>, not the output of the configured
  serializer.
\<close>

theorem mapping_body_ignores_serializer:
  "messages (http_call example_lib
      (example_app\<lparr>app_routes := [(literal ''/'', [(''GET'', dict_handler)])]\<rparr>)
      (example_scope ''GET'' ''/'') [\<lparr>ev_body = [], more_body = False\<rparr>])
   = [HttpResponseStart 200 [(''content-type'', ''application/json''), (''content-length'', ''2'')],
      HttpResponseBody ''{}'']
   \<and> app_serializer example_app (VDict []) = Inr ''custom''"
  by code_simp

section \<open>Routing\<close>

lemma resolve_skip:
  "no_match (path (t_request t)) pre \<Longrightarrow>
   resolve L (pre @ rs) i t = resolve L rs (i + length pre) t"
proof (induction pre arbitrary: i)
  case Nil
  show ?case by simp
next
  case (Cons a pre)
  obtain k ms where a: "a = (k, ms)" by (cases a)
  from Cons.prems a obtain s m where k: "k = Compiled s m" and nm: "m (path (t_request t)) = None"
    and rest: "no_match (path (t_request t)) pre"
    by (cases k) (auto simp: no_match_def)
  from Cons.IH [OF rest, of "Suc i"] show ?case
    by (simp add: a k nm)
qed

lemma resolve_not_found:
  "no_match (path (t_request t)) rs \<Longrightarrow> resolve L rs i t = Respond (Response_status L 404) t"
  using resolve_skip [of t rs L "[]" i] by simp

lemma resolve_selected:
  assumes "no_match (path (t_request t)) pre" and "m (path (t_request t)) = Some groups"
  shows "resolve L (pre @ (Compiled s m, methods) # post) i t =
           (let t' = t\<lparr>t_request := (t_request t)\<lparr>params := groups\<rparr>\<rparr>
            in case map_of methods (req_method (t_request t)) of
                 Some func \<Rightarrow> call_handler L func (CHandler (i + length pre) (req_method (t_request t))) t'
               | None \<Rightarrow> Respond (method_not_allowed L methods) t')"
  using assms by (simp add: resolve_skip Let_def split: option.splits)

text \<open>
  Claim C2. The loop over the compiled route table, in registration order, selects the
  first pattern that matches the whole path: whatever patterns follow it, matching or not,
  play no part. When the method set of the selected route has the request's method, its
  handler is called, once, on the request whose \<open>params\<close> are the named groups of the
  match, and the response is the normalized return value of the handler (or the response
  it raised). When no pattern matches the whole path the response has status 404.
\<close>

theorem resolve_first_full_match:
  "(no_match (path (t_request t)) pre \<and> m (path (t_request t)) = Some groups
      \<and> map_of methods (req_method (t_request t)) = Some func
      \<and> func ((t_request t)\<lparr>params := groups\<rparr>) = (rq, out)
    \<longrightarrow> resolve L (pre @ (Compiled s m, methods) # post) i t =
          (let t' = t\<lparr>t_request := rq,
                      t_calls := t_calls t @ [CHandler (i + length pre) (req_method (t_request t))]\<rparr>
           in case out of
                Returned r \<Rightarrow>
                  (case from_any L r of Inl e \<Rightarrow> Crash e t' | Inr resp \<Rightarrow> Respond resp t')
              | RaisedResponse resp \<Rightarrow> Respond resp t'
              | Raised e \<Rightarrow> Crash e t'))
   \<and> (no_match (path (t_request t)) rs
    \<longrightarrow> resolve L rs i t = Respond (Response_status L 404) t
        \<and> status (Response_status L 404) = 404)"
  by (simp add: resolve_selected resolve_not_found call_handler_def Let_def
      Response_status_def Response_plain_def split: outcome.splits sum.splits)

text \<open>
  Three routes of which the second and the third match \<open>/xy\<close>: the handler of the second
  is called and the third, whose handler would raise, is not; with the first route alone
  the answer is 404.
\<close>

theorem resolve_first_full_match_witness:
  "resolve example_lib
     [(literal ''/a'', [(''GET'', dict_handler)]),
      (Compiled ''/x.*'' (\<lambda>p. if take 2 p = ''/x'' then Some [] else None), [(''GET'', dict_handler)]),
      (Compiled ''/xy'' (\<lambda>p. if p = ''/xy'' then Some [] else None), [(''GET'', (\<lambda>rq. (rq, Raised KeyError)))])]
     0 (start_txn (example_request ''GET'' ''/xy''))
   = Respond \<lparr>status = 200, description = ''OK'',
               headers = [(''content-type'', [VStr ''application/json''])],
               cookies = [], body = ''{}'', dumps = json_dumps example_lib\<rparr>
       ((start_txn (example_request ''GET'' ''/xy''))\<lparr>t_calls := [CHandler 1 ''GET'']\<rparr>)
   \<and> resolve example_lib [(literal ''/a'', [(''GET'', dict_handler)])] 0
        (start_txn (example_request ''GET'' ''/xy''))
       = Respond (Response_status example_lib 404) (start_txn (example_request ''GET'' ''/xy''))"
proof -
  let ?t = "start_txn (example_request ''GET'' ''/xy'')"
  let ?m = "\<lambda>p. if take 2 p = ''/x'' then Some ([] :: (string \<times> pyval) list) else None"
  let ?pre = "[(literal ''/a'', [(''GET'', dict_handler)])]"
  let ?post = "[(Compiled ''/xy'' (\<lambda>p. if p = ''/xy'' then Some [] else None), [(''GET'', (\<lambda>rq. (rq, Raised KeyError)))])]"
  have h1: "no_match (path (t_request ?t)) ?pre"
    by (simp add: no_match_def literal_def start_txn_def example_request_def)
  have h2: "?m (path (t_request ?t)) = Some []"
    by (simp add: start_txn_def example_request_def)
  have h3: "map_of [(''GET'', dict_handler)] (req_method (t_request ?t)) = Some dict_handler"
    by (simp add: start_txn_def example_request_def)
  have h4: "dict_handler ((t_request ?t)\<lparr>params := []\<rparr>) = (example_request ''GET'' ''/xy'', Returned (RVal (VDict [])))"
    by (simp add: dict_handler_def start_txn_def example_request_def)
  have f: "from_any example_lib (RVal (VDict [])) = Inr \<lparr>status = 200, description = ''OK'',
               headers = [(''content-type'', [VStr ''application/json''])],
               cookies = [], body = ''{}'', dumps = json_dumps example_lib\<rparr>"
    by (simp add: from_any_mapping) (simp add: example_lib_def)
  from resolve_first_full_match [of ?t ?pre ?m "[]" "[(''GET'', dict_handler)]" dict_handler
      "example_request ''GET'' ''/xy''" "Returned (RVal (VDict []))" example_lib "''/x.*''" ?post 0 ?pre]
    h1 h2 h3 h4 f
  show ?thesis by (simp add: start_txn_def example_request_def)
qed

lemma status_method_not_allowed: "status (method_not_allowed L methods) = 405"
  by (simp add: method_not_allowed_def Response_status_def Response_plain_def Let_def)

lemma join_all:
  "join sep xs =
     (if xs = [] then [] else concat (map (\<lambda>x. x @ sep) (butlast xs)) @ last xs)"
  by (induction sep xs rule: join.induct) auto

lemma allow_method_not_allowed:
  "raw_get L (headers (method_not_allowed L methods)) ''allow'' ds
     = [VStr (join '', '' (map fst methods))]"
  by (simp add: method_not_allowed_def Response_status_def Response_plain_def Let_def
      setitem_def lower_literals raw_get_def)

text \<open>
  Claim C7. When the route selected for the path (the first pattern that matches the
  whole path) has no handler for the request's method, the response has status 405 and
  the value of its \<open>Allow\<close> header lists the methods registered for that pattern, all of
  them and nothing else: every method but the last followed by a comma and a space, then
  the last method, in registration order (the empty string when the route has no method).
  No handler is called.
\<close>

theorem resolve_method_not_allowed:
  assumes "no_match (path (t_request t)) pre" and "m (path (t_request t)) = Some groups"
    and "map_of methods (req_method (t_request t)) = None"
  shows "resolve L (pre @ (Compiled s m, methods) # post) i t =
           Respond (method_not_allowed L methods)
             (t\<lparr>t_request := (t_request t)\<lparr>params := groups\<rparr>\<rparr>)
       \<and> status (method_not_allowed L methods) = 405
       \<and> raw_get L (headers (method_not_allowed L methods)) ''allow'' [] =
           [VStr (if methods = [] then []
                  else concat (map (\<lambda>k. k @ '', '') (butlast (map fst methods)))
                       @ last (map fst methods))]"
  using assms
  by (simp add: resolve_selected status_method_not_allowed allow_method_not_allowed join_all)

text \<open>
  Three routes: the first does not match \<open>/x\<close>, the second matches it and has \<open>POST\<close> and
  \<open>PUT\<close>, the third matches it too and has \<open>GET\<close>. \<open>GET /x\<close> is answered from the second
  route: 405 with \<open>Allow: POST, PUT\<close>.
\<close>

theorem resolve_method_not_allowed_witness:
  "no_match ''/x'' [(literal ''/a'', [(''GET'', dict_handler)])]
   \<and> map_of [(''POST'', dict_handler), (''PUT'', dict_handler)] ''GET'' = None
   \<and> resolve example_lib
        [(literal ''/a'', [(''GET'', dict_handler)]),
         (Compiled ''/x'' (\<lambda>p. if p = ''/x'' then Some [] else None),
          [(''POST'', dict_handler), (''PUT'', dict_handler)]),
         (literal ''/x'', [(''GET'', dict_handler)])]
        0 (start_txn (example_request ''GET'' ''/x''))
       = Respond (method_not_allowed example_lib [(''POST'', dict_handler), (''PUT'', dict_handler)])
           (start_txn (example_request ''GET'' ''/x''))
   \<and> status (method_not_allowed example_lib [(''POST'', dict_handler), (''PUT'', dict_handler)]) = 405
   \<and> raw_get example_lib
        (headers (method_not_allowed example_lib [(''POST'', dict_handler), (''PUT'', dict_handler)]))
        ''allow'' []
       = [VStr ''POST, PUT'']"
proof -
  let ?t = "start_txn (example_request ''GET'' ''/x'')"
  let ?m = "\<lambda>p. if p = ''/x'' then Some ([] :: (string \<times> pyval) list) else None"
  let ?pre = "[(literal ''/a'', [(''GET'', dict_handler)])]"
  let ?ms = "[(''POST'', dict_handler), (''PUT'', dict_handler)]"
  have h1: "no_match (path (t_request ?t)) ?pre"
    by (simp add: no_match_def literal_def start_txn_def example_request_def)
  have h2: "?m (path (t_request ?t)) = Some []"
    by (simp add: start_txn_def example_request_def)
  have h3: "map_of ?ms (req_method (t_request ?t)) = None"
    by (simp add: start_txn_def example_request_def)
  have e: "?t\<lparr>t_request := (t_request ?t)\<lparr>params := []\<rparr>\<rparr> = ?t"
    by (simp add: start_txn_def example_request_def)
  from resolve_method_not_allowed [where t = ?t and m = ?m and pre = ?pre and groups = "[]"
      and methods = ?ms and L = example_lib and s = "''/x''"
      and post = "[(literal ''/x'', [(''GET'', dict_handler)])]" and i = 0, OF h1 h2 h3] h1 h3 e
  show ?thesis by (simp add: start_txn_def example_request_def)
qed

text \<open>
  End to end, after startup: with only \<open>POST /x\<close> registered, \<open>GET /x\<close> is answered with
  405 and \<open>Allow: POST\<close>; with \<open>POST\<close>, \<open>PUT\<close> and \<open>DELETE\<close> registered for \<open>/x\<close>, with 405
  and \<open>Allow: POST, PUT, DELETE\<close>.
\<close>

lemma post_only_example:
  "messages (http_call example_lib
      (started example_lib (route example_app ''/x'' [''POST''] dict_handler))
      (example_scope ''GET'' ''/x'') [\<lparr>ev_body = [], more_body = False\<rparr>])
   = [HttpResponseStart 405
        [(''content-type'', ''text/html; charset=utf-8''), (''allow'', ''POST''),
         (''content-length'', ''0'')],
      HttpResponseBody []]"
  by code_simp

lemma three_methods_example:
  "messages (http_call example_lib
      (started example_lib
         (route (route example_app ''/x'' [''POST'', ''PUT''] dict_handler)
            ''/x'' [''DELETE''] dict_handler))
      (example_scope ''GET'' ''/x'') [\<lparr>ev_body = [], more_body = False\<rparr>])
   = [HttpResponseStart 405
        [(''content-type'', ''text/html; charset=utf-8''), (''allow'', ''POST, PUT, DELETE''),
         (''content-length'', ''0'')],
      HttpResponseBody []]"
  by code_simp

section \<open>The try block ends with a response, an exception, or waiting\<close>

lemma call_handler_ends: "call_handler L func c t \<noteq> Continue t'"
  by (simp add: call_handler_def Let_def split: prod.splits outcome.splits sum.splits)

lemma resolve_ends: "resolve L rs i t \<noteq> Continue t'"
proof (induction rs arbitrary: i)
  case Nil
  show ?case by simp
next
  case (Cons a rs)
  obtain k ms where a: "a = (k, ms)" by (cases a)
  show ?case
  proof (cases k)
    case (Raw s)
    with a show ?thesis by simp
  next
    case (Compiled s m)
    with a Cons.IH show ?thesis
      by (simp add: Let_def call_handler_ends split: option.splits)
  qed
qed

lemma step_ends: "(\<And>t. f t \<noteq> Continue t') \<Longrightarrow> step fl f \<noteq> Continue t'"
  by (cases fl) (simp_all add: step_def)

lemma run_main_ends: "run_main L app raw evs t \<noteq> Continue t'"
  unfolding run_main_def by (rule step_ends) (rule resolve_ends)

section \<open>The body size limit\<close>

lemma decode_headers_keeps:
  "decode_headers L raw t = Continue t1 \<Longrightarrow>
   t_calls t1 = t_calls t \<and> t_consumed t1 = t_consumed t
   \<and> req_body (t_request t1) = req_body (t_request t)"
  by (auto simp: decode_headers_def split: option.splits sum.splits)

lemma load_cookies_keeps:
  "load_cookies L t = Continue t1 \<Longrightarrow>
   t_calls t1 = t_calls t \<and> t_consumed t1 = t_consumed t
   \<and> req_body (t_request t1) = req_body (t_request t)"
  by (auto simp: load_cookies_def split: option.splits sum.splits pyval.splits)

lemma new_request_fresh:
  "new_request L sc = Inr rq \<Longrightarrow> req_body rq = [] \<and> req_method rq = sc_method sc \<and> path rq = sc_path sc"
  by (auto simp: new_request_def Request_init_def split: sum.splits)

lemma read_body_too_large:
  assumes "n < length evs"
    and "\<forall>i<n. more_body (evs ! i)
           \<and> int (length (req_body (t_request t) @ concat (map ev_body (take (Suc i) evs)))) \<le> mc"
    and "int (length (req_body (t_request t) @ concat (map ev_body (take (Suc n) evs)))) > mc"
  shows "read_body L mc evs t =
           Respond (Response_status L 413)
             (t\<lparr>t_request := (t_request t)\<lparr>req_body :=
                    req_body (t_request t) @ concat (map ev_body (take (Suc n) evs))\<rparr>,
                t_consumed := t_consumed t + Suc n\<rparr>)"
  using assms
proof (induction n arbitrary: evs t)
  case 0
  then obtain ev rest where evs: "evs = ev # rest" by (cases evs) auto
  with 0 show ?case by (simp add: Let_def)
next
  case (Suc n)
  then obtain ev rest where evs: "evs = ev # rest" by (cases evs) auto
  let ?t' = "t\<lparr>t_request := (t_request t)\<lparr>req_body := req_body (t_request t) @ ev_body ev\<rparr>,
                 t_consumed := Suc (t_consumed t)\<rparr>"
  from Suc.prems(2) [rule_format, of 0] evs
  have first: "more_body ev" "int (length (req_body (t_request t) @ ev_body ev)) \<le> mc"
    by simp_all
  have n: "n < length rest" using Suc.prems(1) evs by simp
  have below: "\<forall>i<n. more_body (rest ! i)
           \<and> int (length (req_body (t_request ?t') @ concat (map ev_body (take (Suc i) rest)))) \<le> mc"
  proof (intro allI impI)
    fix i assume "i < n"
    with Suc.prems(2) [rule_format, of "Suc i"] evs
    show "more_body (rest ! i)
           \<and> int (length (req_body (t_request ?t') @ concat (map ev_body (take (Suc i) rest)))) \<le> mc"
      by simp
  qed
  have above: "int (length (req_body (t_request ?t') @ concat (map ev_body (take (Suc n) rest)))) > mc"
    using Suc.prems(3) evs by simp
  have "read_body L mc evs t = read_body L mc rest ?t'"
    using first evs by (simp add: Let_def)
  also note Suc.IH [OF n below above]
  finally show ?case by (simp add: evs)
qed

lemma finalize_fresh:
  "finalize L (Response_status L st) =
     Inr ((Response_status L st)\<lparr>headers :=
        [(''content-type'', [VStr ''text/html; charset=utf-8'']),
         (''content-length'', [VInt 0]),
         (''set-cookie'', map VStr (cookie_output L []))]\<rparr>)"
  by (simp add: finalize_def Response_status_def Response_plain_def setdefault_def
      lower_literals raw_update_def dict_update_def)

text \<open>
  Claim C1. Take a transaction that reaches the body loop (the headers decode and the
  cookie header parses), and let event \<open>n\<close> be the first after which the accumulated body
  is longer than \<open>max_content\<close>, every event before it announcing more body. Then the
  \<open>try\<close> block ends with \<open>Response(413)\<close>, which is the response given to the
  after-chain; no before-hook and no handler has been called; exactly \<open>n + 1\<close> body
  events have been received, whatever events follow. With no after-hook registered the
  transaction sends status 413.
\<close>

theorem body_too_large_413:
  assumes rq: "new_request L sc = Inr rq"
    and hdrs: "decode_headers L (sc_headers sc) (start_txn rq) = Continue t1"
    and cks: "load_cookies L t1 = Continue t2"
    and n: "n < length evs"
    and below: "\<forall>i<n. more_body (evs ! i)
           \<and> int (length (concat (map ev_body (take (Suc i) evs)))) \<le> app_max_content app"
    and above: "int (length (concat (map ev_body (take (Suc n) evs)))) > app_max_content app"
    and t3: "t3 = t2\<lparr>t_request := (t_request t2)\<lparr>req_body := concat (map ev_body (take (Suc n) evs))\<rparr>,
                    t_consumed := Suc n\<rparr>"
  shows "run_main L app (sc_headers sc) evs (start_txn rq) = Respond (Response_status L 413) t3
       \<and> status (Response_status L 413) = 413
       \<and> t_calls t3 = []
       \<and> t_consumed t3 = Suc n
       \<and> http_call L app sc evs =
           (case run_after L (app_after app) 0 (Response_status L 413) t3 of
              AfterCrash e t' \<Rightarrow> Failed e
            | Completed resp t' \<Rightarrow> finish L resp t'
            | Replaced resp t' \<Rightarrow> finish L resp t')
       \<and> (app_after app = [] \<longrightarrow>
            (\<exists>hs. messages (http_call L app sc evs) = [HttpResponseStart 413 hs, HttpResponseBody []])
            \<and> calls_made (http_call L app sc evs) = [])"
proof -
  from decode_headers_keeps [OF hdrs] load_cookies_keeps [OF cks] new_request_fresh [OF rq]
  have k: "t_calls t2 = []" "t_consumed t2 = 0" "req_body (t_request t2) = []"
    by (simp_all add: start_txn_def)
  from read_body_too_large [of n evs t2 "app_max_content app" L] n below above k t3
  have rb: "read_body L (app_max_content app) evs t2 = Respond (Response_status L 413) t3"
    by simp
  have main: "run_main L app (sc_headers sc) evs (start_txn rq) = Respond (Response_status L 413) t3"
    by (simp add: run_main_def step_def hdrs cks rb)
  have st: "status (Response_status L 413) = 413"
    by (simp add: Response_status_def Response_plain_def)
  have call: "http_call L app sc evs =
           (case run_after L (app_after app) 0 (Response_status L 413) t3 of
              AfterCrash e t' \<Rightarrow> Failed e
            | Completed resp t' \<Rightarrow> finish L resp t'
            | Replaced resp t' \<Rightarrow> finish L resp t')"
    by (simp add: http_call_def rq main)
  let ?r = "(Response_status L 413)\<lparr>headers :=
        [(''content-type'', [VStr ''text/html; charset=utf-8'']),
         (''content-length'', [VInt 0]),
         (''set-cookie'', map VStr (cookie_output L []))]\<rparr>"
  have fin: "finish L (Response_status L 413) t3 = Sent (response_messages L ?r) ?r t3"
    by (simp add: finish_def finalize_fresh)
  have msgs: "\<exists>hs. response_messages L ?r = [HttpResponseStart 413 hs, HttpResponseBody []]"
    by (simp add: response_messages_def Response_status_def Response_plain_def)
  have plain: "app_after app = [] \<longrightarrow>
            (\<exists>hs. messages (http_call L app sc evs) = [HttpResponseStart 413 hs, HttpResponseBody []])
            \<and> calls_made (http_call L app sc evs) = []"
  proof
    assume "app_after app = []"
    then have "http_call L app sc evs = Sent (response_messages L ?r) ?r t3"
      by (simp add: call fin)
    with msgs k t3 show "(\<exists>hs. messages (http_call L app sc evs) = [HttpResponseStart 413 hs, HttpResponseBody []])
            \<and> calls_made (http_call L app sc evs) = []"
      by (simp add: messages_def calls_made_def)
  qed
  from main st call plain k t3 show ?thesis by simp
qed


text \<open>
  With \<open>max_content = 3\<close> and the chunks \<open>ab\<close>, \<open>cd\<close>, \<open>ef\<close>: 413 after the second chunk,
  the handler of \<open>POST /\<close> is not called.
\<close>

theorem body_too_large_413_witness:
  "messages (http_call example_lib small_app (example_scope ''POST'' ''/'') three_chunks)
     = [HttpResponseStart 413
          [(''content-type'', ''text/html; charset=utf-8''), (''content-length'', ''0'')],
        HttpResponseBody []]
   \<and> calls_made (http_call example_lib small_app (example_scope ''POST'' ''/'') three_chunks) = []
   \<and> run_main example_lib small_app [] three_chunks (start_txn (example_request ''POST'' ''/''))
     = Respond (Response_status example_lib 413)
         ((start_txn (example_request ''POST'' ''/''))
            \<lparr>t_request := (example_request ''POST'' ''/'')\<lparr>req_body := ''abcd''\<rparr>,
             t_consumed := 2\<rparr>)"
proof -
  let ?sc = "example_scope ''POST'' ''/''"
  let ?rq = "example_request ''POST'' ''/''"
  have rq: "new_request example_lib ?sc = Inr ?rq"
    by (simp add: new_request_def Request_init_def MultiDict_init_def init_from_dict_def init_from_pairs_def example_scope_def
        example_request_def example_lib_def str_values_def dict_of_items_def dict_update_def)
  have hdrs: "decode_headers example_lib (sc_headers ?sc) (start_txn ?rq) = Continue (start_txn ?rq)"
    by (simp add: decode_headers_def MultiDict_init_def init_from_dict_def init_from_pairs_def example_scope_def start_txn_def
        example_request_def)
  have cks: "load_cookies example_lib (start_txn ?rq) = Continue (start_txn ?rq)"
    by (simp add: load_cookies_def get_def start_txn_def example_request_def example_lib_def)
  have n: "(1::nat) < length three_chunks" by (simp add: three_chunks_def)
  have below: "\<forall>i<(1::nat). more_body (three_chunks ! i)
           \<and> int (length (concat (map ev_body (take (Suc i) three_chunks)))) \<le> app_max_content small_app"
    by (simp add: three_chunks_def small_app_def)
  have above: "int (length (concat (map ev_body (take (Suc 1) three_chunks)))) > app_max_content small_app"
    by (simp add: three_chunks_def small_app_def)
  have aft: "app_after small_app = []"
    by (simp add: small_app_def example_app_def Application_init_def)
  have e: "messages (http_call example_lib small_app ?sc three_chunks)
     = [HttpResponseStart 413
          [(''content-type'', ''text/html; charset=utf-8''), (''content-length'', ''0'')],
        HttpResponseBody []]"
    by code_simp
  have e2: "calls_made (http_call example_lib small_app ?sc three_chunks) = []"
    by code_simp
  from body_too_large_413 [OF rq hdrs cks n below above refl] aft e e2
  show ?thesis
    by (simp add: three_chunks_def example_scope_def start_txn_def eval_nat_numeral)
qed

section \<open>The after-chain\<close>

lemma run_main_stages: "run_main L app raw evs t = run_steps (stages L app raw evs) t"
  by (simp add: run_main_def stages_def step_def split: flow.splits)

lemma step_Continue: "step fl f = Continue t1 \<Longrightarrow> \<exists>t'. fl = Continue t' \<and> f t' = Continue t1"
  by (cases fl) (simp_all add: step_def)

lemma run_steps_early:
  "run_steps fs t = Continue t1 \<Longrightarrow> g t1 = Respond r t2 \<Longrightarrow>
   run_steps (fs @ g # gs) t = Respond r t2"
proof (induction fs arbitrary: t)
  case Nil
  then show ?case by (simp add: step_def)
next
  case (Cons f fs)
  from Cons.prems(1) obtain t' where f: "f t = Continue t'" and r: "run_steps fs t' = Continue t1"
    by (auto dest: step_Continue)
  from Cons.IH [OF r Cons.prems(2)] f show ?case by (simp add: step_def)
qed

lemma run_after_append:
  "run_after L (pre @ rest) i r t =
     (case run_after L pre i r t of
        Completed r1 t1 \<Rightarrow> run_after L rest (i + length pre) r1 t1
      | Replaced r1 t1 \<Rightarrow> Replaced r1 t1
      | AfterCrash e t1 \<Rightarrow> AfterCrash e t1)"
  by (induction pre arbitrary: i r t)
    (auto simp: Let_def split: prod.splits outcome.splits sum.splits after_end.splits)

lemma run_after_calls:
  "run_after L hs i r t = Completed r1 t1 \<Longrightarrow>
   t_calls t1 = t_calls t @ map CAfter [i..<i + length hs]"
proof (induction hs arbitrary: i r t)
  case Nil
  then show ?case by simp
next
  case (Cons h hs)
  obtain rq r' out where h: "h (t_request t) r = (rq, r', out)" by (cases "h (t_request t) r")
  let ?t' = "t\<lparr>t_request := rq, t_calls := t_calls t @ [CAfter i]\<rparr>"
  from Cons.prems h have "run_after L hs (Suc i) r' ?t' = Completed r1 t1"
    by (auto simp: Let_def split: outcome.splits sum.splits if_splits)
  from Cons.IH [OF this]
  have "t_calls t1 = t_calls t @ CAfter i # map CAfter [Suc i..<Suc i + length hs]"
    by simp
  moreover have "[i..<i + length (h # hs)] = i # [Suc i..<Suc i + length hs]"
    by (simp del: upt_Suc add: upt_conv_Cons)
  ultimately show ?case by (simp del: upt_Suc)
qed

text \<open>
  Claim C4. Let any statement \<open>g\<close> of the \<open>try\<close> block (header decoding, cookie parsing,
  body assembly, content decoding, the before-chain, or routing) end with a response \<open>r\<close>,
  the statements before it having raised nothing. Then \<open>r\<close> is the response in flight and
  the after-chain runs over it. If the after-hooks \<open>pre\<close> return falsy values and the next
  hook \<open>h\<close>, called on the request and the response as \<open>pre\<close> left them, returns a truthy
  value that normalizes to \<open>r3\<close>, then \<open>r3\<close> replaces the response in flight and is the
  response that is finalized and sent; the hooks \<open>pre\<close> and \<open>h\<close> have been called, in
  order, and none of the hooks after \<open>h\<close>.
\<close>

theorem after_chain_replaces_response:
  assumes rq: "new_request L sc = Inr rq"
    and st: "stages L app (sc_headers sc) evs = fs @ g # gs"
    and before_g: "run_steps fs (start_txn rq) = Continue t1"
    and g: "g t1 = Respond r t"
    and aft: "app_after app = pre @ h # post"
    and quiet: "run_after L pre 0 r t = Completed r1 t2"
    and h: "h (t_request t2) r1 = (rq', r2, Returned v)"
    and v: "truthy v" and norm: "from_any L v = Inr r3"
  shows "run_main L app (sc_headers sc) evs (start_txn rq) = Respond r t
       \<and> run_after L (app_after app) 0 r t =
           Replaced r3 (t2\<lparr>t_request := rq',
                           t_calls := t_calls t @ map CAfter [0..<Suc (length pre)]\<rparr>)
       \<and> http_call L app sc evs =
           finish L r3 (t2\<lparr>t_request := rq',
                           t_calls := t_calls t @ map CAfter [0..<Suc (length pre)]\<rparr>)"
proof -
  have main: "run_main L app (sc_headers sc) evs (start_txn rq) = Respond r t"
    using run_steps_early [where g = g and gs = gs, OF before_g g] st
    by (simp add: run_main_stages)
  have calls: "t_calls t2 = t_calls t @ map CAfter [0..<length pre]"
    using run_after_calls [OF quiet] by simp
  have "run_after L (h # post) (length pre) r1 t2 =
          Replaced r3 (t2\<lparr>t_request := rq', t_calls := t_calls t2 @ [CAfter (length pre)]\<rparr>)"
    by (simp add: h v norm)
  with quiet aft calls have after:
    "run_after L (app_after app) 0 r t =
       Replaced r3 (t2\<lparr>t_request := rq',
                       t_calls := t_calls t @ map CAfter [0..<Suc (length pre)]\<rparr>)"
    by (simp add: run_after_append)
  from main after show ?thesis
    by (simp add: http_call_def rq)
qed

text \<open>
  The body limit is exceeded, so the \<open>try\<close> block ends early with 413. Of three
  after-hooks the first returns \<open>None\<close>, the second returns the status of the response it
  is given, and the third would raise: the response sent is the normalized 413 returned
  by the second hook, and the third hook is not called.
\<close>

theorem after_chain_replaces_response_witness:
  "messages (http_call example_lib hooked_app (example_scope ''POST'' ''/'') three_chunks)
     = [HttpResponseStart 413
          [(''content-type'', ''text/html; charset=utf-8''), (''content-length'', ''24'')],
        HttpResponseBody ''Request Entity Too Large'']
   \<and> calls_made (http_call example_lib hooked_app (example_scope ''POST'' ''/'') three_chunks)
     = [CAfter 0, CAfter 1]"
proof -
  let ?L = example_lib
  let ?sc = "example_scope ''POST'' ''/''"
  let ?rq = "example_request ''POST'' ''/''"
  let ?t = "(start_txn ?rq)\<lparr>t_request := ?rq\<lparr>req_body := ''abcd''\<rparr>, t_consumed := 2\<rparr>"
  let ?r = "Response_status ?L 413"
  let ?r3 = "Response_plain ?L 413 ''Request Entity Too Large''"
  have rq: "new_request ?L ?sc = Inr ?rq"
    by (simp add: new_request_def Request_init_def MultiDict_init_def init_from_dict_def init_from_pairs_def example_scope_def
        example_request_def example_lib_def str_values_def dict_of_items_def dict_update_def)
  have st: "stages ?L hooked_app (sc_headers ?sc) three_chunks =
      [decode_headers ?L (sc_headers ?sc), load_cookies ?L]
      @ read_body ?L (app_max_content hooked_app) three_chunks
      # [decode_content ?L, run_before ?L (app_before hooked_app) 0,
         resolve ?L (app_routes hooked_app) 0]"
    by (simp add: stages_def)
  have before_g: "run_steps [decode_headers ?L (sc_headers ?sc), load_cookies ?L] (start_txn ?rq)
      = Continue (start_txn ?rq)"
    by (simp add: step_def decode_headers_def MultiDict_init_def init_from_dict_def init_from_pairs_def example_scope_def start_txn_def
        example_request_def load_cookies_def get_def example_lib_def)
  have g: "read_body ?L (app_max_content hooked_app) three_chunks (start_txn ?rq) = Respond ?r ?t"
    by (simp add: three_chunks_def hooked_app_def small_app_def start_txn_def
        example_request_def Let_def)
  have aft: "app_after hooked_app = [quiet_hook] @ echo_status_hook # [raising_hook]"
    by (simp add: hooked_app_def)
  have quiet: "run_after ?L [quiet_hook] 0 ?r ?t = Completed ?r (?t\<lparr>t_calls := [CAfter 0]\<rparr>)"
    by (simp add: quiet_hook_def truthy_def start_txn_def)
  have h: "echo_status_hook (t_request (?t\<lparr>t_calls := [CAfter 0]\<rparr>)) ?r
      = (?rq\<lparr>req_body := ''abcd''\<rparr>, ?r, Returned (RVal (VInt 413)))"
    by (simp add: echo_status_hook_def Response_status_def Response_plain_def)
  have v: "truthy (RVal (VInt 413))" by (simp add: truthy_def)
  have ph: "http_phrase ?L 413 = Some ''Request Entity Too Large''"
    by (simp add: example_lib_def)
  have norm: "from_any ?L (RVal (VInt 413)) = Inr ?r3"
    by (simp add: from_any_def from_status_def ph Response_init_plain)
  have s24: "str_int 24 = ''24''" by code_simp
  have fin: "messages (finish ?L ?r3 tt)
     = [HttpResponseStart 413
          [(''content-type'', ''text/html; charset=utf-8''), (''content-length'', ''24'')],
        HttpResponseBody ''Request Entity Too Large'']" for tt
    by (simp add: finish_def finalize_def Response_plain_def setdefault_def lower_literals
        raw_update_def dict_update_def response_messages_def raw_items_def messages_def
        example_lib_def s24)
  have fin2: "calls_made (finish ?L ?r3 tt) = t_calls tt" for tt
    by (simp add: finish_def finalize_def Response_plain_def setdefault_def lower_literals
        calls_made_def)
  from after_chain_replaces_response [where g = "read_body ?L (app_max_content hooked_app) three_chunks",
      OF rq st before_g g aft quiet h v norm]
  have "http_call ?L hooked_app ?sc three_chunks =
          finish ?L ?r3 (?t\<lparr>t_calls := [CAfter 0], t_request := ?rq\<lparr>req_body := ''abcd''\<rparr>,
             t_calls := t_calls ?t @ map CAfter [0..<Suc (length [quiet_hook])]\<rparr>)"
    by simp
  then show ?thesis
    by (simp add: fin fin2 start_txn_def)
qed

end
